theory Spec2Isabelle
  imports Main "HOL-Library.Word"
begin

section \<open>JavaScript strings\<close>

text \<open>
  A JavaScript string is a sequence of UTF-16 code units. The regular expressions of
  \<^verbatim>\<open>main.ts\<close> carry no \<^verbatim>\<open>u\<close> flag, so they too work on code units.
  \<open>js\<close> turns an ASCII literal into such a string.
\<close>

type_synonym jschar = "16 word"
type_synonym jsstring = "jschar list"

definition js :: "string \<Rightarrow> jsstring" where
  "js s = map (\<lambda>c. of_nat (of_char c)) s"

definition startsWith :: "jsstring \<Rightarrow> jsstring \<Rightarrow> bool" where
  "startsWith s t = (take (length t) s = t)"

definition endsWith :: "jsstring \<Rightarrow> jsstring \<Rightarrow> bool" where
  "endsWith s t = (length t \<le> length s \<and> drop (length s - length t) s = t)"

fun includes_str :: "jsstring \<Rightarrow> jsstring \<Rightarrow> bool" where
  "includes_str [] t = (t = [])"
| "includes_str (c # cs) t = (startsWith (c # cs) t \<or> includes_str cs t)"

text \<open>\<^verbatim>\<open>LineTerminator\<close> of ECMAScript: LF, CR, LS, PS. The pattern character
  \<^verbatim>\<open>.\<close> matches every code unit but these.\<close>

definition isLineTerminator :: "jschar \<Rightarrow> bool" where
  "isLineTerminator c = (c = 0x0A \<or> c = 0x0D \<or> c = 0x2028 \<or> c = 0x2029)"

text \<open>\<^verbatim>\<open>WhiteSpace\<close> of ECMAScript: TAB, VT, FF, SP, NBSP, ZWNBSP and the
  Unicode space separators. \<^verbatim>\<open>String.prototype.trim\<close> removes white space and
  line terminators from both ends.\<close>

definition isWhiteSpace :: "jschar \<Rightarrow> bool" where
  "isWhiteSpace c = (c = 0x09 \<or> c = 0x0B \<or> c = 0x0C \<or> c = 0x20 \<or> c = 0xA0 \<or> c = 0x1680
     \<or> (0x2000 \<le> c \<and> c \<le> 0x200A) \<or> c = 0x202F \<or> c = 0x205F \<or> c = 0x3000 \<or> c = 0xFEFF)"

definition isTrimmed :: "jschar \<Rightarrow> bool" where
  "isTrimmed c = (isWhiteSpace c \<or> isLineTerminator c)"

definition trim :: "jsstring \<Rightarrow> jsstring" where
  "trim s = rev (dropWhile isTrimmed (rev (dropWhile isTrimmed s)))"

text \<open>\<^verbatim>\<open>s.split("\n")\<close>: the pieces between line feeds; never an empty list.\<close>

fun split_nl :: "jsstring \<Rightarrow> jsstring list" where
  "split_nl [] = [[]]"
| "split_nl (c # cs) =
     (if c = 0x0A then [] # split_nl cs
      else (case split_nl cs of [] \<Rightarrow> [[c]] | p # ps \<Rightarrow> (c # p) # ps))"

section \<open>JSON values and \<^verbatim>\<open>JSON.parse\<close>\<close>

text \<open>
  A number keeps its source text: the program never computes with one, it only tests
  it for truth and appends it to a string, and both are left to the engine (see
  \<open>engine\<close> below). An object keeps its members in source order; on a duplicate
  key the last member wins, as in \<^verbatim>\<open>JSON.parse\<close>.
\<close>

datatype json =
    JNull
  | JBool bool
  | JNum jsstring
  | JStr jsstring
  | JArr "json list"
  | JObj "(jsstring \<times> json) list"

text \<open>A JavaScript value read out of a decoded document: \<open>None\<close> is \<^verbatim>\<open>undefined\<close>.\<close>

type_synonym jsval = "json option"

definition isJsonWs :: "jschar \<Rightarrow> bool" where
  "isJsonWs c = (c = 0x20 \<or> c = 0x09 \<or> c = 0x0A \<or> c = 0x0D)"

definition skipWs :: "jsstring \<Rightarrow> jsstring" where
  "skipWs s = dropWhile isJsonWs s"

definition isDigit :: "jschar \<Rightarrow> bool" where
  "isDigit c = (0x30 \<le> c \<and> c \<le> 0x39)"

definition hexval :: "jschar \<Rightarrow> nat option" where
  "hexval c =
     (if 0x30 \<le> c \<and> c \<le> 0x39 then Some (unat c - 0x30)
      else if 0x41 \<le> c \<and> c \<le> 0x46 then Some (unat c - 0x41 + 10)
      else if 0x61 \<le> c \<and> c \<le> 0x66 then Some (unat c - 0x61 + 10)
      else None)"

definition unescape :: "jschar \<Rightarrow> jschar option" where
  "unescape e =
     (if e = 0x22 \<or> e = 0x5C \<or> e = 0x2F then Some e
      else if e = 0x62 then Some 0x08
      else if e = 0x66 then Some 0x0C
      else if e = 0x6E then Some 0x0A
      else if e = 0x72 then Some 0x0D
      else if e = 0x74 then Some 0x09
      else None)"

definition consFst :: "'a \<Rightarrow> ('a list \<times> 'b) option \<Rightarrow> ('a list \<times> 'b) option" where
  "consFst x r = map_option (\<lambda>(xs, t). (x # xs, t)) r"

text \<open>The characters of a string literal after its opening quote, and what follows
  the closing quote.\<close>

fun parseStringBody :: "jsstring \<Rightarrow> (jsstring \<times> jsstring) option" where
  "parseStringBody [] = None"
| "parseStringBody (c # cs) =
     (if c = 0x22 then Some ([], cs)
      else if c = 0x5C then
        (case cs of
           [] \<Rightarrow> None
         | e # r \<Rightarrow>
             if e = 0x75 then
               (case r of
                  h1 # h2 # h3 # h4 # r' \<Rightarrow>
                    (case (hexval h1, hexval h2, hexval h3, hexval h4) of
                       (Some a, Some b, Some c', Some d) \<Rightarrow>
                         consFst (of_nat (((a * 16 + b) * 16 + c') * 16 + d)) (parseStringBody r')
                     | _ \<Rightarrow> None)
                | _ \<Rightarrow> None)
             else
               (case unescape e of
                  None \<Rightarrow> None
                | Some x \<Rightarrow> consFst x (parseStringBody r)))
      else if c < 0x20 then None
      else consFst c (parseStringBody cs))"

text \<open>A number literal: \<^verbatim>\<open>-? (0 | [1-9][0-9]*) (\.[0-9]+)? ([eE][+-]?[0-9]+)?\<close>.\<close>

definition parseInt :: "jsstring \<Rightarrow> (jsstring \<times> jsstring) option" where
  "parseInt s =
     (case s of
        [] \<Rightarrow> None
      | c # cs \<Rightarrow>
          if c = 0x30 then Some ([c], cs)
          else if isDigit c then Some (c # takeWhile isDigit cs, dropWhile isDigit cs)
          else None)"

definition parseFrac :: "jsstring \<Rightarrow> (jsstring \<times> jsstring) option" where
  "parseFrac s =
     (case s of
        c # d # cs \<Rightarrow>
          if c = 0x2E then
            (if isDigit d then Some (c # d # takeWhile isDigit cs, dropWhile isDigit cs) else None)
          else Some ([], s)
      | [c] \<Rightarrow> if c = 0x2E then None else Some ([], s)
      | [] \<Rightarrow> Some ([], s))"

definition parseExp :: "jsstring \<Rightarrow> (jsstring \<times> jsstring) option" where
  "parseExp s =
     (case s of
        [] \<Rightarrow> Some ([], s)
      | c # cs \<Rightarrow>
          if c = 0x65 \<or> c = 0x45 then
            (let sgn = (case cs of [] \<Rightarrow> [] | g # _ \<Rightarrow> if g = 0x2B \<or> g = 0x2D then [g] else []);
                 ds = drop (length sgn) cs
             in if ds \<noteq> [] \<and> isDigit (hd ds)
                then Some (c # sgn @ takeWhile isDigit ds, dropWhile isDigit ds)
                else None)
          else Some ([], s))"

definition parseNumber :: "jsstring \<Rightarrow> (jsstring \<times> jsstring) option" where
  "parseNumber s =
     (let sgn = (case s of [] \<Rightarrow> [] | c # _ \<Rightarrow> if c = 0x2D then [c] else [])
      in case parseInt (drop (length sgn) s) of
           None \<Rightarrow> None
         | Some (i, r1) \<Rightarrow>
             (case parseFrac r1 of
                None \<Rightarrow> None
              | Some (f, r2) \<Rightarrow>
                  (case parseExp r2 of
                     None \<Rightarrow> None
                   | Some (e, r3) \<Rightarrow> Some (sgn @ i @ f @ e, r3))))"

text \<open>
  Values, array elements and object members, by recursive descent. The first argument
  bounds the number of nested calls; \<open>JSON_parse\<close> starts it above twice the length
  of the text, which is enough for every text (lemma \<open>JSON_parse_any_fuel\<close>).
\<close>

fun parseValue :: "nat \<Rightarrow> jsstring \<Rightarrow> (json \<times> jsstring) option"
  and parseElements :: "nat \<Rightarrow> jsstring \<Rightarrow> (json list \<times> jsstring) option"
  and parseMembers :: "nat \<Rightarrow> jsstring \<Rightarrow> ((jsstring \<times> json) list \<times> jsstring) option"
where
  "parseValue 0 s = None"
| "parseValue (Suc n) s =
     (case skipWs s of
        [] \<Rightarrow> None
      | c # cs \<Rightarrow>
          if c = 0x7B then
            (let r = skipWs cs
             in if startsWith r [0x7D] then Some (JObj [], tl r)
                else map_option (\<lambda>(kvs, t). (JObj kvs, t)) (parseMembers n r))
          else if c = 0x5B then
            (let r = skipWs cs
             in if startsWith r [0x5D] then Some (JArr [], tl r)
                else map_option (\<lambda>(vs, t). (JArr vs, t)) (parseElements n r))
          else if c = 0x22 then map_option (\<lambda>(x, t). (JStr x, t)) (parseStringBody cs)
          else if startsWith (c # cs) (js ''true'') then Some (JBool True, drop 4 (c # cs))
          else if startsWith (c # cs) (js ''false'') then Some (JBool False, drop 5 (c # cs))
          else if startsWith (c # cs) (js ''null'') then Some (JNull, drop 4 (c # cs))
          else map_option (\<lambda>(l, t). (JNum l, t)) (parseNumber (c # cs)))"
| "parseElements 0 s = None"
| "parseElements (Suc n) s =
     (case parseValue n s of
        None \<Rightarrow> None
      | Some (v, r) \<Rightarrow>
          (case skipWs r of
             [] \<Rightarrow> None
           | c # r' \<Rightarrow>
               if c = 0x2C then consFst v (parseElements n r')
               else if c = 0x5D then Some ([v], r')
               else None))"
| "parseMembers 0 s = None"
| "parseMembers (Suc n) s =
     (case skipWs s of
        [] \<Rightarrow> None
      | q # r \<Rightarrow>
          if q = 0x22 then
            (case parseStringBody r of
               None \<Rightarrow> None
             | Some (k, r1) \<Rightarrow>
                 (case skipWs r1 of
                    [] \<Rightarrow> None
                  | c # r2 \<Rightarrow>
                      if c = 0x3A then
                        (case parseValue n r2 of
                           None \<Rightarrow> None
                         | Some (v, r3) \<Rightarrow>
                             (case skipWs r3 of
                                [] \<Rightarrow> None
                              | d # r4 \<Rightarrow>
                                  if d = 0x2C then consFst (k, v) (parseMembers n r4)
                                  else if d = 0x7D then Some ([(k, v)], r4)
                                  else None))
                      else None))
          else None)"

text \<open>\<^verbatim>\<open>JSON.parse(text)\<close>: \<open>None\<close> is the \<^verbatim>\<open>SyntaxError\<close> it throws.\<close>

definition JSON_parse :: "jsstring \<Rightarrow> json option" where
  "JSON_parse s =
     (case parseValue (2 * length s + 2) s of
        None \<Rightarrow> None
      | Some (v, r) \<Rightarrow> if skipWs r = [] then Some v else None)"

section \<open>Thrown values, HTTP results and the engine\<close>

text \<open>
  What the program reads of a thrown value: \<^verbatim>\<open>error.type\<close>,
  \<^verbatim>\<open>error.message\<close> when it is a string, and \<^verbatim>\<open>error.addition\<close>.
\<close>

datatype ServiceErrorType =
  Unknown | Param | UnsupportedLanguage | SecretKey | Network | Api | NotFound

record thrown =
  thrown_type :: "ServiceErrorType option"
  thrown_message :: "jsstring option"
  thrown_addition :: "jsstring option"

text \<open>
  An HTTP result as the program reads it: \<^verbatim>\<open>result.data\<close> (\<open>None\<close> when
  undefined), \<^verbatim>\<open>result.response.statusCode\<close> and the truth of \<^verbatim>\<open>result.error\<close>.
\<close>

record HttpResponse =
  data :: jsval
  statusCode :: int
  hasError :: bool

text \<open>
  What the JavaScript engine decides and the program does not: the message text of the
  \<^verbatim>\<open>SyntaxError\<close> of \<^verbatim>\<open>JSON.parse\<close> and of a \<^verbatim>\<open>TypeError\<close>, whether
  a number is zero, the string conversion of a value that is not a string, the
  comparison \<^verbatim>\<open>v > 0\<close> for a value that is not the length of an array or of a
  string, the truth of \<^verbatim>\<open>Number(s)\<close> for a string, and \<^verbatim>\<open>JSON.stringify\<close> of an
  HTTP result.
\<close>

record engine =
  syntaxErrorMessage :: "jsstring \<Rightarrow> jsstring"
  typeErrorMessage :: jsstring
  numberIsZero :: "jsstring \<Rightarrow> bool"
  toStringOther :: "json \<Rightarrow> jsstring"
  greaterThanZero :: "jsval \<Rightarrow> bool"
  numberIsTruthy :: "jsstring \<Rightarrow> bool"
  JSON_stringify :: "HttpResponse \<Rightarrow> jsstring"

definition SyntaxError :: "engine \<Rightarrow> jsstring \<Rightarrow> thrown" where
  "SyntaxError eng text =
     \<lparr>thrown_type = None, thrown_message = Some (syntaxErrorMessage eng text),
      thrown_addition = None\<rparr>"

definition TypeError :: "engine \<Rightarrow> thrown" where
  "TypeError eng =
     \<lparr>thrown_type = None, thrown_message = Some (typeErrorMessage eng), thrown_addition = None\<rparr>"

section \<open>Reading a decoded document\<close>

text \<open>
  \<^verbatim>\<open>v.name\<close> for the names this program reads (\<^verbatim>\<open>choices\<close>, \<^verbatim>\<open>delta\<close>,
  \<^verbatim>\<open>content\<close>, \<^verbatim>\<open>message\<close>, \<^verbatim>\<open>error\<close>, \<^verbatim>\<open>data\<close>): none is an array
  index, \<^verbatim>\<open>length\<close> or a name inherited from a prototype, so only an object can
  hold one. Reading a property of \<^verbatim>\<open>undefined\<close> or \<^verbatim>\<open>null\<close> throws a
  \<^verbatim>\<open>TypeError\<close>.
\<close>

fun member :: "engine \<Rightarrow> jsval \<Rightarrow> jsstring \<Rightarrow> thrown + jsval" where
  "member eng None k = Inl (TypeError eng)"
| "member eng (Some JNull) k = Inl (TypeError eng)"
| "member eng (Some (JObj kvs)) k = Inr (map_of (rev kvs) k)"
| "member eng (Some v) k = Inr None"

text \<open>\<^verbatim>\<open>v[0]\<close>: the first element of an array, the first code unit of a string as a
  string, the member \<^verbatim>\<open>"0"\<close> of an object.\<close>

fun index0 :: "engine \<Rightarrow> jsval \<Rightarrow> thrown + jsval" where
  "index0 eng None = Inl (TypeError eng)"
| "index0 eng (Some JNull) = Inl (TypeError eng)"
| "index0 eng (Some (JArr vs)) = Inr (case vs of [] \<Rightarrow> None | v # _ \<Rightarrow> Some v)"
| "index0 eng (Some (JStr s)) = Inr (case s of [] \<Rightarrow> None | c # _ \<Rightarrow> Some (JStr [c]))"
| "index0 eng (Some (JObj kvs)) = Inr (map_of (rev kvs) (js ''0''))"
| "index0 eng (Some v) = Inr None"

text \<open>\<^verbatim>\<open>v?.name\<close>: \<^verbatim>\<open>undefined\<close> when \<^verbatim>\<open>v\<close> is \<^verbatim>\<open>undefined\<close> or \<^verbatim>\<open>null\<close>.\<close>

definition optMember :: "engine \<Rightarrow> jsval \<Rightarrow> jsstring \<Rightarrow> thrown + jsval" where
  "optMember eng v k = (if v = None \<or> v = Some JNull then Inr None else member eng v k)"

definition bindT :: "thrown + 'a \<Rightarrow> ('a \<Rightarrow> thrown + 'b) \<Rightarrow> thrown + 'b" where
  "bindT r f = (case r of Inl e \<Rightarrow> Inl e | Inr x \<Rightarrow> f x)"

fun ToBoolean :: "engine \<Rightarrow> jsval \<Rightarrow> bool" where
  "ToBoolean eng None = False"
| "ToBoolean eng (Some JNull) = False"
| "ToBoolean eng (Some (JBool b)) = b"
| "ToBoolean eng (Some (JNum n)) = (\<not> numberIsZero eng n)"
| "ToBoolean eng (Some (JStr s)) = (s \<noteq> [])"
| "ToBoolean eng (Some v) = True"

text \<open>The string appended by \<^verbatim>\<open>targetText += delta\<close> for a truthy \<^verbatim>\<open>delta\<close>.\<close>

fun ToString :: "engine \<Rightarrow> json \<Rightarrow> jsstring" where
  "ToString eng (JStr s) = s"
| "ToString eng v = toStringOther eng v"

section \<open>The translate query and what a call does\<close>

text \<open>
  The records keep the field names of the source; \<^verbatim>\<open>text\<close>, \<^verbatim>\<open>from\<close>, \<^verbatim>\<open>to\<close>,
  \<^verbatim>\<open>type\<close> and \<^verbatim>\<open>method\<close> carry a suffix. The query's cancel signal is handed to
  the transport untouched and is left out; its two callbacks appear as the events
  \<open>OnStream\<close> and \<open>OnCompletion\<close> below, and are taken to return normally, as are
  the two error helpers.
\<close>

record TextTranslateQuery =
  text_q :: jsstring
  detectFrom :: jsstring
  detectTo :: jsstring

record TranslateResult =
  from_lang :: jsstring
  to_lang :: jsstring
  toParagraphs :: "jsstring list"

record ServiceError =
  type_e :: ServiceErrorType
  message :: jsstring
  addition :: "jsstring option"
  troubleshootingLink :: "jsstring option"

text \<open>A header or a request body is an object: its members in order.\<close>

record HttpRequest =
  method_r :: jsstring
  url :: jsstring
  header :: "(jsstring \<times> jsstring) list"
  body :: "json option"

text \<open>The second argument of \<^verbatim>\<open>handleGeneralError\<close> and \<^verbatim>\<open>handleValidateError\<close>:
  an error record written in place, an HTTP result, a caught value, or the record that
  the validation handlers build from a response body (its type, its message
  \<^verbatim>\<open>data.error\<close>, which can be any decoded value, and its troubleshooting link).\<close>

datatype errorArg =
    ErrRecord ServiceError
  | ErrResponse HttpResponse
  | ErrThrown thrown
  | ErrBody ServiceErrorType json jsstring

text \<open>
  The trace of a call: every call it makes to the host, to the transport and to the
  error helpers of \<^verbatim>\<open>utils\<close>, in order. \<open>ValidateCompletion b\<close> is the call
  \<^verbatim>\<open>completion({result: b})\<close> of \<^verbatim>\<open>pluginValidate\<close>; \<open>HandlerThrows e\<close> is a
  value thrown out of a response handler, back into the transport that called it.
\<close>

datatype event =
    OnStream TranslateResult
  | OnCompletion TranslateResult
  | HandleGeneralError errorArg
  | Request HttpRequest
  | StreamRequest HttpRequest
  | HandleValidateError errorArg
  | ValidateCompletion bool
  | HandlerThrows thrown

section \<open>\<^verbatim>\<open>handleStreamResponse\<close>\<close>

definition isServiceError :: "thrown \<Rightarrow> bool" where
  "isServiceError e = (thrown_message e \<noteq> None)"

text \<open>\<^verbatim>\<open>choices[0]?.delta?.content\<close> after \<^verbatim>\<open>const { choices } = dataObj\<close>.\<close>

definition deltaContent :: "engine \<Rightarrow> json \<Rightarrow> thrown + jsval" where
  "deltaContent eng dataObj =
     bindT (member eng (Some dataObj) (js ''choices'')) (\<lambda>choices.
     bindT (index0 eng choices) (\<lambda>c0.
     bindT (optMember eng c0 (js ''delta'')) (\<lambda>d.
     optMember eng d (js ''content''))))"

text \<open>The \<^verbatim>\<open>catch\<close> block of \<^verbatim>\<open>handleStreamResponse\<close>.\<close>

definition streamCatch :: "thrown \<Rightarrow> event" where
  "streamCatch e =
     (if isServiceError e then
        HandleGeneralError (ErrRecord
          \<lparr>type_e = (case thrown_type e of None \<Rightarrow> Param | Some t \<Rightarrow> t),
           message = (case thrown_message e of
                        None \<Rightarrow> js ''Failed to parse JSON''
                      | Some m \<Rightarrow> if m = [] then js ''Failed to parse JSON'' else m),
           addition = thrown_addition e,
           troubleshootingLink = None\<rparr>)
      else
        HandleGeneralError (ErrRecord
          \<lparr>type_e = Param, message = js ''An unknown error occurred'',
           addition = None, troubleshootingLink = None\<rparr>))"

text \<open>Returns the new \<^verbatim>\<open>targetText\<close> and the calls made.\<close>

definition handleStreamResponse ::
  "engine \<Rightarrow> TextTranslateQuery \<Rightarrow> jsstring \<Rightarrow> jsstring \<Rightarrow> jsstring \<times> event list" where
  "handleStreamResponse eng query targetText textFromResponse =
     (if textFromResponse \<noteq> js ''[DONE]'' then
        (case JSON_parse textFromResponse of
           None \<Rightarrow> (targetText, [streamCatch (SyntaxError eng textFromResponse)])
         | Some dataObj \<Rightarrow>
             (case deltaContent eng dataObj of
                Inl e \<Rightarrow> (targetText, [streamCatch e])
              | Inr None \<Rightarrow> (targetText, [])
              | Inr (Some delta) \<Rightarrow>
                  if ToBoolean eng (Some delta) then
                    (let targetText' = targetText @ ToString eng delta
                     in (targetText',
                         [OnStream \<lparr>from_lang = detectFrom query, to_lang = detectTo query,
                                    toParagraphs = [targetText']\<rparr>]))
                  else (targetText, [])))
      else (targetText, []))"

section \<open>The message texts of \<^verbatim>\<open>main.ts\<close>\<close>

text \<open>The Chinese string literals of the source, as their UTF-16 code units.\<close>

text \<open>\<^verbatim>\<open>main.ts\<close> lines 31, 302 and 349: \<^verbatim>\<open>\u914d\u7f6e\u9519\u8bef - \u8bf7\u786e\u4fdd\u60a8\u5728\u63d2\u4ef6\u914d\u7f6e\u4e2d\u586b\u5165\u4e86\u6b63\u786e\u7684 API Keys\<close>\<close>

definition msgApiKeys :: jsstring where
  "msgApiKeys =
     [0x914D, 0x7F6E, 0x9519, 0x8BEF, 0x0020, 0x002D, 0x0020, 0x8BF7, 0x786E, 0x4FDD,
      0x60A8, 0x5728, 0x63D2, 0x4EF6, 0x914D, 0x7F6E, 0x4E2D, 0x586B, 0x5165, 0x4E86,
      0x6B63, 0x786E, 0x7684, 0x0020, 0x0041, 0x0050, 0x0049, 0x0020, 0x004B, 0x0065,
      0x0079, 0x0073]"

text \<open>\<^verbatim>\<open>main.ts\<close> lines 32 and 350: \<^verbatim>\<open>\u8bf7\u5728\u63d2\u4ef6\u914d\u7f6e\u4e2d\u586b\u5199\u6b63\u786e\u7684 API Keys\<close>\<close>

definition addCorrectApiKeys :: jsstring where
  "addCorrectApiKeys =
     [0x8BF7, 0x5728, 0x63D2, 0x4EF6, 0x914D, 0x7F6E, 0x4E2D, 0x586B, 0x5199, 0x6B63,
      0x786E, 0x7684, 0x0020, 0x0041, 0x0050, 0x0049, 0x0020, 0x004B, 0x0065, 0x0079,
      0x0073]"

text \<open>\<^verbatim>\<open>main.ts\<close> line 303: \<^verbatim>\<open>\u8bf7\u5728\u63d2\u4ef6\u914d\u7f6e\u4e2d\u586b\u5199 API Keys\<close>\<close>

definition addApiKeys :: jsstring where
  "addApiKeys =
     [0x8BF7, 0x5728, 0x63D2, 0x4EF6, 0x914D, 0x7F6E, 0x4E2D, 0x586B, 0x5199, 0x0020,
      0x0041, 0x0050, 0x0049, 0x0020, 0x004B, 0x0065, 0x0079, 0x0073]"

text \<open>\<^verbatim>\<open>main.ts\<close> lines 47 and 322: \<^verbatim>\<open>\u914d\u7f6e\u9519\u8bef - \u672a\u586b\u5199 Deployment Name\<close>\<close>

definition msgDeploymentName :: jsstring where
  "msgDeploymentName =
     [0x914D, 0x7F6E, 0x9519, 0x8BEF, 0x0020, 0x002D, 0x0020, 0x672A, 0x586B, 0x5199,
      0x0020, 0x0044, 0x0065, 0x0070, 0x006C, 0x006F, 0x0079, 0x006D, 0x0065, 0x006E,
      0x0074, 0x0020, 0x004E, 0x0061, 0x006D, 0x0065]"

text \<open>\<^verbatim>\<open>main.ts\<close> lines 48 and 323: \<^verbatim>\<open>\u8bf7\u5728\u63d2\u4ef6\u914d\u7f6e\u4e2d\u586b\u5199 Deployment Name\<close>\<close>

definition addDeploymentName :: jsstring where
  "addDeploymentName =
     [0x8BF7, 0x5728, 0x63D2, 0x4EF6, 0x914D, 0x7F6E, 0x4E2D, 0x586B, 0x5199, 0x0020,
      0x0044, 0x0065, 0x0070, 0x006C, 0x006F, 0x0079, 0x006D, 0x0065, 0x006E, 0x0074,
      0x0020, 0x004E, 0x0061, 0x006D, 0x0065]"

text \<open>\<^verbatim>\<open>main.ts\<close> line 246: \<^verbatim>\<open>\u63a5\u53e3\u672a\u8fd4\u56de\u7ed3\u679c\<close>\<close>

definition msgNoResult :: jsstring where
  "msgNoResult =
     [0x63A5, 0x53E3, 0x672A, 0x8FD4, 0x56DE, 0x7ED3, 0x679C]"

text \<open>\<^verbatim>\<open>main.ts\<close> lines 275 and 276: \<^verbatim>\<open>\u4e0d\u652f\u6301\u8be5\u8bed\u79cd\<close>\<close>

definition msgUnsupportedLanguage :: jsstring where
  "msgUnsupportedLanguage =
     [0x4E0D, 0x652F, 0x6301, 0x8BE5, 0x8BED, 0x79CD]"

text \<open>\<^verbatim>\<open>main.ts\<close> line 294: \<^verbatim>\<open>\u914d\u7f6e\u9519\u8bef - \u8bf7\u786e\u4fdd\u60a8\u5728\u63d2\u4ef6\u914d\u7f6e\u4e2d\u586b\u5165\u4e86\u6b63\u786e\u7684\u81ea\u5b9a\u4e49\u6a21\u578b\u540d\u79f0\<close>\<close>

definition msgCustomModel :: jsstring where
  "msgCustomModel =
     [0x914D, 0x7F6E, 0x9519, 0x8BEF, 0x0020, 0x002D, 0x0020, 0x8BF7, 0x786E, 0x4FDD,
      0x60A8, 0x5728, 0x63D2, 0x4EF6, 0x914D, 0x7F6E, 0x4E2D, 0x586B, 0x5165, 0x4E86,
      0x6B63, 0x786E, 0x7684, 0x81EA, 0x5B9A, 0x4E49, 0x6A21, 0x578B, 0x540D, 0x79F0]"

text \<open>\<^verbatim>\<open>main.ts\<close> line 295: \<^verbatim>\<open>\u8bf7\u5728\u63d2\u4ef6\u914d\u7f6e\u4e2d\u586b\u5199\u81ea\u5b9a\u4e49\u6a21\u578b\u540d\u79f0\<close>\<close>

definition addCustomModel :: jsstring where
  "addCustomModel =
     [0x8BF7, 0x5728, 0x63D2, 0x4EF6, 0x914D, 0x7F6E, 0x4E2D, 0x586B, 0x5199, 0x81EA,
      0x5B9A, 0x4E49, 0x6A21, 0x578B, 0x540D, 0x79F0]"

definition linkOpenAI :: jsstring where
  "linkOpenAI = js ''https://bobtranslate.com/service/translate/openai.html''"

definition linkAzure :: jsstring where
  "linkAzure = js ''https://bobtranslate.com/service/translate/azureopenai.html''"

section \<open>The frame pattern \<^verbatim>\<open>/data: (.*?})\n/\<close>\<close>

text \<open>
  The number of code units that \<^verbatim>\<open>.*?}\n\<close> matches at the start of a string:
  the lazy star first tries \<^verbatim>\<open>}\n\<close> where it stands, and otherwise steps over
  one code unit that is not a line terminator.
\<close>

fun lazyTail :: "jsstring \<Rightarrow> nat option" where
  "lazyTail [] = None"
| "lazyTail (c # cs) =
     (if c = 0x7D \<and> startsWith cs [0x0A] then Some 2
      else if isLineTerminator c then None
      else map_option Suc (lazyTail cs))"

text \<open>The length of the match of the whole pattern at the start of a string.\<close>

definition matchAt :: "jsstring \<Rightarrow> nat option" where
  "matchAt s =
     (if startsWith s (js ''data: '') then map_option (\<lambda>n. 6 + n) (lazyTail (drop 6 s))
      else None)"

text \<open>The leftmost match: its index and its length.\<close>

fun findMatch :: "jsstring \<Rightarrow> (nat \<times> nat) option" where
  "findMatch [] = None"
| "findMatch (c # cs) =
     (case matchAt (c # cs) of
        Some n \<Rightarrow> Some (0, n)
      | None \<Rightarrow> map_option (\<lambda>(i, n). (Suc i, n)) (findMatch cs))"

text \<open>\<^verbatim>\<open>buffer.match(/data: (.*?})\n/)\<close>: \<^verbatim>\<open>match[0]\<close> and \<^verbatim>\<open>match[1]\<close>,
  or \<open>None\<close> for \<^verbatim>\<open>null\<close>.\<close>

definition bufferMatch :: "jsstring \<Rightarrow> (jsstring \<times> jsstring) option" where
  "bufferMatch buffer =
     map_option (\<lambda>(i, n). (take n (drop i buffer), take (n - 7) (drop (i + 6) buffer)))
       (findMatch buffer)"

lemma length_data_prefix: "length (js ''data: '') = 6"
  by (simp add: js_def)

lemma lazyTail_bounds: "lazyTail s = Some n \<Longrightarrow> 2 \<le> n \<and> n \<le> length s"
proof (induction s arbitrary: n)
  case Nil
  then show ?case by simp
next
  case (Cons c cs)
  show ?case
  proof (cases "c = 0x7D \<and> startsWith cs [0x0A]")
    case True
    then have "cs \<noteq> []" by (auto simp: startsWith_def)
    with True Cons.prems show ?thesis by (cases cs) auto
  next
    case False
    with Cons.prems obtain m where "lazyTail cs = Some m" "n = Suc m"
      by (auto split: if_splits)
    with Cons.IH show ?thesis by auto
  qed
qed

lemma matchAt_bounds: "matchAt s = Some n \<Longrightarrow> 8 \<le> n \<and> n \<le> length s"
  by (auto simp: matchAt_def split: if_splits dest!: lazyTail_bounds)

lemma findMatch_bounds: "findMatch s = Some (i, n) \<Longrightarrow> 8 \<le> n \<and> i + n \<le> length s"
proof (induction s arbitrary: i)
  case Nil
  then show ?case by simp
next
  case (Cons c cs)
  then show ?case
    by (fastforce split: option.splits dest: matchAt_bounds)
qed

lemma bufferMatch_length:
  assumes "bufferMatch buffer = Some (m0, m1)"
  shows "8 \<le> length m0 \<and> length m0 \<le> length buffer"
proof -
  from assms obtain i n where f: "findMatch buffer = Some (i, n)" and m: "m0 = take n (drop i buffer)"
    by (auto simp: bufferMatch_def)
  from findMatch_bounds [OF f] m show ?thesis by auto
qed

section \<open>The stream handler of \<^verbatim>\<open>translate\<close>\<close>

text \<open>
  The \<^verbatim>\<open>while (true)\<close> loop of \<^verbatim>\<open>streamHandler\<close>: as long as the buffer holds a
  match, hand the trimmed group to \<^verbatim>\<open>handleStreamResponse\<close> and cut
  \<^verbatim>\<open>match[0].length\<close> code units off the front of the buffer. The result is the
  final \<^verbatim>\<open>targetText\<close>, the final \<^verbatim>\<open>buffer\<close> and the calls made.
\<close>

function frameLoop ::
  "engine \<Rightarrow> TextTranslateQuery \<Rightarrow> jsstring \<Rightarrow> jsstring \<Rightarrow> (jsstring \<times> jsstring) \<times> event list" where
  "frameLoop eng query targetText buffer =
     (case bufferMatch buffer of
        None \<Rightarrow> ((targetText, buffer), [])
      | Some (m0, m1) \<Rightarrow>
          (case handleStreamResponse eng query targetText (trim m1) of
             (targetText', evs) \<Rightarrow>
               (case frameLoop eng query targetText' (drop (length m0) buffer) of
                  (st, evs') \<Rightarrow> (st, evs @ evs'))))"
  by pat_completeness auto
termination
proof (relation "measure (\<lambda>(eng, query, targetText, buffer). length buffer)")
  show "wf (measure (\<lambda>(eng, query, targetText, buffer). length buffer))"
    by simp
next
  fix eng :: engine and query :: TextTranslateQuery and targetText buffer :: jsstring
    and x2 m0 m1 and x :: "jsstring \<times> event list" and targetText' evs
  assume "bufferMatch buffer = Some x2" "(m0, m1) = x2"
  then have "bufferMatch buffer = Some (m0, m1)" by simp
  from bufferMatch_length [OF this]
  have "length buffer - length m0 < length buffer"
    by arith
  then show "((eng, query, targetText', drop (length m0) buffer), (eng, query, targetText, buffer))
        \<in> measure (\<lambda>(eng, query, targetText, buffer). length buffer)"
    by simp
qed

declare frameLoop.simps [simp del]

text \<open>The \<^verbatim>\<open>secretKey\<close> error of a chunk that contains \<^verbatim>\<open>Invalid token\<close>.\<close>

definition invalidTokenError :: ServiceError where
  "invalidTokenError =
     \<lparr>type_e = SecretKey, message = msgApiKeys, addition = Some addCorrectApiKeys,
      troubleshootingLink = Some linkOpenAI\<rparr>"

text \<open>
  One call of \<^verbatim>\<open>streamHandler\<close>. The argument is \<^verbatim>\<open>streamData.text\<close>, \<open>None\<close>
  when it is undefined. The state is the pair of the closure variables
  \<^verbatim>\<open>targetText\<close> and \<^verbatim>\<open>buffer\<close>.
\<close>

definition streamHandler ::
  "engine \<Rightarrow> TextTranslateQuery \<Rightarrow> jsstring \<times> jsstring \<Rightarrow> jsstring option
     \<Rightarrow> (jsstring \<times> jsstring) \<times> event list" where
  "streamHandler eng query st streamData =
     (case streamData of
        None \<Rightarrow> (st, [])
      | Some txt \<Rightarrow>
          if includes_str txt (js ''Invalid token'') then
            (st, [HandleGeneralError (ErrRecord invalidTokenError)])
          else frameLoop eng query (fst st) (snd st @ txt))"

text \<open>The transport calls \<^verbatim>\<open>streamHandler\<close> once for each chunk, in order.\<close>

fun feed ::
  "engine \<Rightarrow> TextTranslateQuery \<Rightarrow> jsstring \<times> jsstring \<Rightarrow> jsstring option list
     \<Rightarrow> (jsstring \<times> jsstring) \<times> event list" where
  "feed eng query st [] = (st, [])"
| "feed eng query st (c # cs) =
     (case streamHandler eng query st c of
        (st', evs) \<Rightarrow>
          (case feed eng query st' cs of
             (st'', evs') \<Rightarrow> (st'', evs @ evs')))"

text \<open>The \<^verbatim>\<open>handler\<close> of the stream request, called with the final result.\<close>

definition streamEnd :: "TextTranslateQuery \<Rightarrow> jsstring \<Rightarrow> HttpResponse \<Rightarrow> event list" where
  "streamEnd query targetText result =
     (if statusCode result \<ge> 400 then [HandleGeneralError (ErrResponse result)]
      else [OnCompletion \<lparr>from_lang = detectFrom query, to_lang = detectTo query,
                          toParagraphs = [targetText]\<rparr>])"

section \<open>\<^verbatim>\<open>handleGeneralResponse\<close>\<close>

text \<open>The quotation characters of the pattern
  \<^verbatim>\<open>/^(\u300e|\u300c|"|\u201c)|(\u300f|\u300d|"|\u201d)$/g\<close>.\<close>

definition isOpeningQuote :: "jschar \<Rightarrow> bool" where
  "isOpeningQuote c = (c = 0x300E \<or> c = 0x300C \<or> c = 0x22 \<or> c = 0x201C)"

definition isClosingQuote :: "jschar \<Rightarrow> bool" where
  "isClosingQuote c = (c = 0x300F \<or> c = 0x300D \<or> c = 0x22 \<or> c = 0x201D)"

text \<open>
  \<^verbatim>\<open>targetText.replace(/^(...)|(...)$/g, "")\<close>. The scan first tries the left
  alternative at index 0, then the right one wherever the next code unit is the last; a
  code unit removed by the left alternative is not looked at again.
\<close>

definition replaceQuotes :: "jsstring \<Rightarrow> jsstring" where
  "replaceQuotes s =
     (let s1 = (case s of [] \<Rightarrow> [] | c # r \<Rightarrow> if isOpeningQuote c then r else s)
      in if s1 \<noteq> [] \<and> isClosingQuote (last s1) then butlast s1 else s1)"

text \<open>\<^verbatim>\<open>choices.length === 0\<close> for a truthy \<^verbatim>\<open>choices\<close>.\<close>

fun lengthIsZero :: "engine \<Rightarrow> json \<Rightarrow> bool" where
  "lengthIsZero eng (JArr vs) = (vs = [])"
| "lengthIsZero eng (JStr s) = (s = [])"
| "lengthIsZero eng (JObj kvs) =
     (case map_of (rev kvs) (js ''length'') of
        Some (JNum n) \<Rightarrow> numberIsZero eng n
      | _ \<Rightarrow> False)"
| "lengthIsZero eng v = False"

text \<open>\<^verbatim>\<open>choices[0].message.content?.trim()\<close>: \<open>None\<close> is \<^verbatim>\<open>undefined\<close>. A
  content that is neither a string nor null has no \<^verbatim>\<open>trim\<close> to call.\<close>

definition contentTrimmed :: "engine \<Rightarrow> jsval \<Rightarrow> thrown + jsstring option" where
  "contentTrimmed eng choices =
     bindT (index0 eng choices) (\<lambda>c0.
     bindT (member eng c0 (js ''message'')) (\<lambda>msg.
     bindT (member eng msg (js ''content'')) (\<lambda>content.
       case content of
         None \<Rightarrow> Inr None
       | Some JNull \<Rightarrow> Inr None
       | Some (JStr s) \<Rightarrow> Inr (Some (trim s))
       | Some v \<Rightarrow> Inl (TypeError eng))))"

definition noResultError :: "engine \<Rightarrow> HttpResponse \<Rightarrow> ServiceError" where
  "noResultError eng result =
     \<lparr>type_e = Api, message = msgNoResult, addition = Some (JSON_stringify eng result),
      troubleshootingLink = None\<rparr>"

text \<open>
  The calls made, or the value thrown; nothing is called before a throw. The last
  line is \<^verbatim>\<open>targetText!.split("\n")\<close>, which throws on \<^verbatim>\<open>undefined\<close>.
\<close>

definition handleGeneralResponse ::
  "engine \<Rightarrow> TextTranslateQuery \<Rightarrow> HttpResponse \<Rightarrow> thrown + event list" where
  "handleGeneralResponse eng query result =
     bindT (member eng (data result) (js ''choices'')) (\<lambda>choices.
       if \<not> ToBoolean eng choices \<or> (case choices of None \<Rightarrow> False | Some c \<Rightarrow> lengthIsZero eng c)
       then Inr [HandleGeneralError (ErrRecord (noResultError eng result))]
       else
         bindT (contentTrimmed eng choices) (\<lambda>targetText0.
           let targetText1 = map_option replaceQuotes targetText0;
               targetText2 =
                 (case targetText1 of
                    None \<Rightarrow> None
                  | Some s \<Rightarrow>
                      if endsWith s (js ''\" =>'') then Some (take (length s - 4) s) else Some s)
           in case targetText2 of
                None \<Rightarrow> Inl (TypeError eng)
              | Some s \<Rightarrow>
                  Inr [OnCompletion \<lparr>from_lang = detectFrom query, to_lang = detectTo query,
                                      toParagraphs = split_nl s\<rparr>]))"

section \<open>Options and imported tables\<close>

text \<open>
  The host's \<^verbatim>\<open>$option\<close> object, as the fields \<^verbatim>\<open>main.ts\<close> reads. Every option
  is a string; an option left empty is the empty string, which is falsy.
\<close>

record options =
  apiKeys :: jsstring
  apiUrl :: jsstring
  apiVersion :: jsstring
  customModel :: jsstring
  deploymentName :: jsstring
  model :: jsstring
  stream :: jsstring
  customSystemPrompt :: jsstring
  customUserPrompt :: jsstring
  polishingMode :: jsstring

record PromptInfo =
  prompt :: jsstring
  detailed :: jsstring

text \<open>
  What \<^verbatim>\<open>main.ts\<close> imports from \<^verbatim>\<open>./lang\<close>, \<^verbatim>\<open>./const\<close> and \<^verbatim>\<open>./utils\<close>, which
  are not among the sources: the language table \<^verbatim>\<open>langMap\<close>, the key selection
  \<^verbatim>\<open>getApiKey\<close>, the placeholder substitution \<^verbatim>\<open>replacePromptKeywords\<close>, the prompt
  table \<^verbatim>\<open>languageMapping\<close> and the two texts of \<^verbatim>\<open>DEFAULT_PROMPT\<close>. They are
  parameters of the model.
\<close>

record imported =
  langMap :: "jsstring \<rightharpoonup> jsstring"
  getApiKey :: "jsstring \<Rightarrow> jsstring"
  replacePromptKeywords :: "jsstring \<Rightarrow> TextTranslateQuery \<Rightarrow> jsstring"
  languageMapping :: "jsstring \<rightharpoonup> PromptInfo"
  DEFAULT_PROMPT_simplicity :: jsstring
  DEFAULT_PROMPT_detailed :: jsstring

text \<open>
  \<^verbatim>\<open>ensureHttpsAndNoTrailingSlash\<close> and \<^verbatim>\<open>buildHeader\<close> are imported from
  \<^verbatim>\<open>./utils\<close> too; the functions of these names in \<^verbatim>\<open>main.js\<close> (lines 17 to 38)
  are taken for them. The test \<^verbatim>\<open>/^[a-z]+:\/\//i\<close> asks for one or more ASCII
  letters and then \<^verbatim>\<open>://\<close>.
\<close>

definition isAsciiLetter :: "jschar \<Rightarrow> bool" where
  "isAsciiLetter c = ((0x61 \<le> c \<and> c \<le> 0x7A) \<or> (0x41 \<le> c \<and> c \<le> 0x5A))"

definition hasProtocol :: "jsstring \<Rightarrow> bool" where
  "hasProtocol u =
     (takeWhile isAsciiLetter u \<noteq> [] \<and> startsWith (dropWhile isAsciiLetter u) (js ''://''))"

definition ensureHttpsAndNoTrailingSlash :: "jsstring \<Rightarrow> jsstring" where
  "ensureHttpsAndNoTrailingSlash u =
     (let modifiedUrl = (if hasProtocol u then u else js ''https://'' @ u)
      in if endsWith modifiedUrl (js ''/'') then take (length modifiedUrl - 1) modifiedUrl
         else modifiedUrl)"

definition buildHeader :: "bool \<Rightarrow> jsstring \<Rightarrow> (jsstring \<times> jsstring) list" where
  "buildHeader isAzureServiceProvider apiKey =
     [(js ''Content-Type'', js ''application/json''),
      (if isAzureServiceProvider then js ''api-key'' else js ''Authorization'',
       if isAzureServiceProvider then apiKey else js ''Bearer '' @ apiKey)]"

section \<open>The request builder\<close>

definition generateSystemPrompt ::
  "imported \<Rightarrow> jsstring \<Rightarrow> jsstring \<Rightarrow> TextTranslateQuery \<Rightarrow> jsstring" where
  "generateSystemPrompt imp basePrompt mode query =
     (let isDetailedPolishingMode = (mode = js ''detailed'');
          promptInfo =
            (case languageMapping imp (detectFrom query) of
               Some info \<Rightarrow> info
             | None \<Rightarrow> \<lparr>prompt = DEFAULT_PROMPT_simplicity imp,
                        detailed = DEFAULT_PROMPT_detailed imp\<rparr>);
          systemPrompt = (if basePrompt \<noteq> [] then basePrompt else prompt promptInfo)
      in if isDetailedPolishingMode then systemPrompt @ detailed promptInfo else systemPrompt)"

text \<open>The payload is an object: its members in the order of the object literal. The
  number literals keep their source text.\<close>

definition buildRequestBody ::
  "imported \<Rightarrow> options \<Rightarrow> jsstring \<Rightarrow> TextTranslateQuery \<Rightarrow> (jsstring \<times> json) list" where
  "buildRequestBody imp opt modelName query =
     (let systemPrompt =
            generateSystemPrompt imp (replacePromptKeywords imp (customSystemPrompt opt) query)
              (polishingMode opt) query;
          userPrompt =
            (if customUserPrompt opt \<noteq> [] then
               replacePromptKeywords imp (customUserPrompt opt) query
                 @ js '':'' @ [0x0A, 0x0A, 0x22] @ text_q query @ [0x22]
             else text_q query)
      in [(js ''model'', JStr modelName),
          (js ''temperature'', JNum (js ''0.2'')),
          (js ''max_tokens'', JNum (js ''1000'')),
          (js ''top_p'', JNum (js ''1'')),
          (js ''frequency_penalty'', JNum (js ''1'')),
          (js ''presence_penalty'', JNum (js ''1'')),
          (js ''messages'',
           JArr [JObj [(js ''role'', JStr (js ''system'')), (js ''content'', JStr systemPrompt)],
                 JObj [(js ''role'', JStr (js ''user'')), (js ''content'', JStr userPrompt)]])])"

section \<open>\<^verbatim>\<open>translate\<close>\<close>

text \<open>
  What the transport does with the one request of a call. For \<^verbatim>\<open>$http.request\<close>: the
  promise resolves with a result or rejects. For \<^verbatim>\<open>$http.streamRequest\<close>: it calls
  \<^verbatim>\<open>streamHandler\<close> for each chunk, then \<^verbatim>\<open>handler\<close> with the result if there is
  one, and the promise may reject at the end.
\<close>

record transport =
  requestOutcome :: "thrown + HttpResponse"
  streamChunks :: "jsstring option list"
  streamResult :: "HttpResponse option"
  streamRejects :: "thrown option"

definition unsupportedLanguageError :: ServiceError where
  "unsupportedLanguageError =
     \<lparr>type_e = UnsupportedLanguage, message = msgUnsupportedLanguage,
      addition = Some msgUnsupportedLanguage, troubleshootingLink = None\<rparr>"

definition customModelError :: ServiceError where
  "customModelError =
     \<lparr>type_e = Param, message = msgCustomModel, addition = Some addCustomModel,
      troubleshootingLink = None\<rparr>"

definition apiKeysError :: ServiceError where
  "apiKeysError =
     \<lparr>type_e = SecretKey, message = msgApiKeys, addition = Some addApiKeys,
      troubleshootingLink = None\<rparr>"

definition deploymentNameError :: ServiceError where
  "deploymentNameError =
     \<lparr>type_e = SecretKey, message = msgDeploymentName, addition = Some addDeploymentName,
      troubleshootingLink = Some linkAzure\<rparr>"

text \<open>\<^verbatim>\<open>ensureHttpsAndNoTrailingSlash(apiUrl || "https://api.openai.com")\<close>\<close>

definition baseUrlOf :: "options \<Rightarrow> jsstring" where
  "baseUrlOf opt =
     ensureHttpsAndNoTrailingSlash
       (if apiUrl opt \<noteq> [] then apiUrl opt else js ''https://api.openai.com'')"

text \<open>Lines 272 to 327: the four checks at the entry of \<^verbatim>\<open>translate\<close>. None of them
  returns; each calls \<^verbatim>\<open>handleGeneralError\<close> and goes on.\<close>

definition entryErrors :: "imported \<Rightarrow> options \<Rightarrow> TextTranslateQuery \<Rightarrow> event list" where
  "entryErrors imp opt query =
     (if (case langMap imp (detectTo query) of None \<Rightarrow> True | Some l \<Rightarrow> l = [])
      then [HandleGeneralError (ErrRecord unsupportedLanguageError)] else [])
     @ (if model opt = js ''custom'' \<and> customModel opt = []
        then [HandleGeneralError (ErrRecord customModelError)] else [])
     @ (if apiKeys opt = [] then [HandleGeneralError (ErrRecord apiKeysError)] else [])
     @ (if includes_str (baseUrlOf opt) (js ''openai.azure.com'') \<and> deploymentName opt = []
        then [HandleGeneralError (ErrRecord deploymentNameError)] else [])"

text \<open>Lines 307 to 330: the URL, the header and the body of the request.\<close>

definition apiUrlPathOf :: "options \<Rightarrow> jsstring" where
  "apiUrlPathOf opt =
     (let baseUrl = baseUrlOf opt;
          apiUrlPath =
            (if includes_str baseUrl (js ''gateway.ai.cloudflare.com'')
             then js ''/chat/completions'' else js ''/v1/chat/completions'');
          apiVersionQuery =
            (if apiVersion opt \<noteq> [] then js ''?api-version='' @ apiVersion opt
             else js ''?api-version=2023-03-15-preview'');
          isAzureServiceProvider = includes_str baseUrl (js ''openai.azure.com'')
      in if isAzureServiceProvider \<and> deploymentName opt \<noteq> []
         then js ''/openai/deployments/'' @ deploymentName opt @ js ''/chat/completions''
                @ apiVersionQuery
         else apiUrlPath)"

definition translateRequest ::
  "imported \<Rightarrow> options \<Rightarrow> TextTranslateQuery \<Rightarrow> bool \<Rightarrow> HttpRequest" where
  "translateRequest imp opt query streaming =
     (let modelValue = (if model opt = js ''custom'' then customModel opt else model opt);
          apiKey = getApiKey imp (apiKeys opt);
          baseUrl = baseUrlOf opt;
          isAzureServiceProvider = includes_str baseUrl (js ''openai.azure.com'');
          body = buildRequestBody imp opt modelValue query
      in \<lparr>method_r = js ''POST'',
          url = baseUrl @ apiUrlPathOf opt,
          header = buildHeader isAzureServiceProvider apiKey,
          body = Some (JObj (if streaming then body @ [(js ''stream'', JBool True)] else body))\<rparr>)"

text \<open>
  The trace of one call of \<^verbatim>\<open>translate\<close>: the entry checks, the request, and what
  the handlers do with the transport's answer. A value thrown inside the asynchronous
  block, or a rejected promise, goes to \<^verbatim>\<open>handleGeneralError\<close> in the final
  \<^verbatim>\<open>catch\<close>.
\<close>

definition translate ::
  "imported \<Rightarrow> engine \<Rightarrow> options \<Rightarrow> TextTranslateQuery \<Rightarrow> transport \<Rightarrow> event list" where
  "translate imp eng opt query tr =
     entryErrors imp opt query
     @ (if numberIsTruthy eng (stream opt) then
          StreamRequest (translateRequest imp opt query True)
          # (case feed eng query ([], []) (streamChunks tr) of
               ((targetText, buffer), evs) \<Rightarrow>
                 evs
                 @ (case streamResult tr of
                      None \<Rightarrow> []
                    | Some result \<Rightarrow> streamEnd query targetText result)
                 @ (case streamRejects tr of
                      None \<Rightarrow> []
                    | Some e \<Rightarrow> [HandleGeneralError (ErrThrown e)]))
        else
          Request (translateRequest imp opt query False)
          # (case requestOutcome tr of
               Inl e \<Rightarrow> [HandleGeneralError (ErrThrown e)]
             | Inr result \<Rightarrow>
                 if hasError result then [HandleGeneralError (ErrResponse result)]
                 else
                   (case handleGeneralResponse eng query result of
                      Inl e \<Rightarrow> [HandleGeneralError (ErrThrown e)]
                    | Inr evs \<Rightarrow> evs)))"

text \<open>
  Modelled from the spec: \<^verbatim>\<open>handleGeneralError\<close> of \<^verbatim>\<open>./utils\<close> is not among the
  sources. Sections 6 and 7 of the specification have every error of a translate call
  reported through the query's completion callback, so a call of
  \<^verbatim>\<open>handleGeneralError\<close> counts as one invocation of the completion callback, as a
  direct \<^verbatim>\<open>query.onCompletion\<close> does.
\<close>

fun isCompletion :: "event \<Rightarrow> bool" where
  "isCompletion (OnCompletion r) = True"
| "isCompletion (HandleGeneralError e) = True"
| "isCompletion e = False"

definition completions :: "event list \<Rightarrow> nat" where
  "completions evs = length (filter isCompletion evs)"

fun isRequest :: "event \<Rightarrow> bool" where
  "isRequest (Request r) = True"
| "isRequest (StreamRequest r) = True"
| "isRequest e = False"

text \<open>The number of calls of the transport in a trace.\<close>

definition transportCalls :: "event list \<Rightarrow> nat" where
  "transportCalls evs = length (filter isRequest evs)"

section \<open>\<^verbatim>\<open>pluginValidate\<close>\<close>

text \<open>What the transport does with the request of a validation: it calls the
  \<^verbatim>\<open>handler\<close> with a response, or never answers, or \<^verbatim>\<open>$http.request\<close> itself
  throws.\<close>

datatype validateTransport =
    HandlerCalled HttpResponse
  | NoAnswer
  | RequestThrows thrown

text \<open>\<^verbatim>\<open>v.length > 0\<close> for a \<^verbatim>\<open>v\<close> that is neither undefined nor null.\<close>

fun lengthPositive :: "engine \<Rightarrow> json \<Rightarrow> bool" where
  "lengthPositive eng (JArr vs) = (vs \<noteq> [])"
| "lengthPositive eng (JStr s) = (s \<noteq> [])"
| "lengthPositive eng (JObj kvs) = greaterThanZero eng (map_of (rev kvs) (js ''length''))"
| "lengthPositive eng v = False"

text \<open>Lines 77 to 86 and 103 to 112: the test of \<^verbatim>\<open>data.error\<close>, the same in both
  handlers but for the link. \<open>None\<close>: no error in the body, the handler goes on.\<close>

definition errorOfBody :: "engine \<Rightarrow> HttpResponse \<Rightarrow> jsstring \<Rightarrow> thrown + event option" where
  "errorOfBody eng resp link =
     bindT (member eng (data resp) (js ''error'')) (\<lambda>err.
       case err of
         None \<Rightarrow> Inr None
       | Some e \<Rightarrow>
           if ToBoolean eng (Some e) then
             Inr (Some (HandleValidateError
                    (ErrBody (if statusCode resp \<ge> 400 \<and> statusCode resp < 500 then Param else Api)
                       e link)))
           else Inr None)"

text \<open>The handler of the Azure request, lines 73 to 92.\<close>

definition azureValidateHandler :: "engine \<Rightarrow> HttpResponse \<Rightarrow> thrown + event list" where
  "azureValidateHandler eng resp =
     bindT (errorOfBody eng resp linkAzure) (\<lambda>err.
       case err of
         Some ev \<Rightarrow> Inr [ev]
       | None \<Rightarrow>
           bindT (member eng (data resp) (js ''choices'')) (\<lambda>choices.
             case choices of
               None \<Rightarrow> Inl (TypeError eng)
             | Some JNull \<Rightarrow> Inl (TypeError eng)
             | Some c \<Rightarrow> Inr (if lengthPositive eng c then [ValidateCompletion True] else [])))"

text \<open>The handler of the OpenAI request, lines 99 to 119; \<^verbatim>\<open>modelList.data?.length\<close>
  is undefined when \<^verbatim>\<open>modelList.data\<close> is undefined or null.\<close>

definition openaiValidateHandler :: "engine \<Rightarrow> HttpResponse \<Rightarrow> thrown + event list" where
  "openaiValidateHandler eng resp =
     bindT (errorOfBody eng resp linkOpenAI) (\<lambda>err.
       case err of
         Some ev \<Rightarrow> Inr [ev]
       | None \<Rightarrow>
           bindT (member eng (data resp) (js ''data'')) (\<lambda>models.
             case models of
               None \<Rightarrow> Inr []
             | Some JNull \<Rightarrow> Inr []
             | Some l \<Rightarrow> Inr (if lengthPositive eng l then [ValidateCompletion True] else [])))"

definition validateAnswer ::
  "(HttpResponse \<Rightarrow> thrown + event list) \<Rightarrow> validateTransport \<Rightarrow> event list" where
  "validateAnswer handler vt =
     (case vt of
        NoAnswer \<Rightarrow> []
      | RequestThrows e \<Rightarrow> [HandleValidateError (ErrThrown e)]
      | HandlerCalled resp \<Rightarrow>
          (case handler resp of
             Inl e \<Rightarrow> [HandlerThrows e]
           | Inr evs \<Rightarrow> evs))"

definition validateApiKeysError :: ServiceError where
  "validateApiKeysError =
     \<lparr>type_e = SecretKey, message = msgApiKeys, addition = Some addCorrectApiKeys,
      troubleshootingLink = Some linkOpenAI\<rparr>"

definition azureTestBody :: json where
  "azureTestBody =
     JObj [(js ''messages'',
            JArr [JObj [(js ''content'', JStr (js ''You are a helpful assistant.'')),
                        (js ''role'', JStr (js ''system''))],
                  JObj [(js ''content'', JStr (js ''Test connection.'')),
                        (js ''role'', JStr (js ''user''))]]),
           (js ''max_tokens'', JNum (js ''5''))]"

text \<open>The trace of one call of \<^verbatim>\<open>pluginValidate\<close>. The provider test of line 42 reads
  the option \<^verbatim>\<open>apiUrl\<close> as it is, not the normalised URL.\<close>

definition pluginValidate ::
  "imported \<Rightarrow> engine \<Rightarrow> options \<Rightarrow> validateTransport \<Rightarrow> event list" where
  "pluginValidate imp eng opt vt =
     (if apiKeys opt = [] then [HandleValidateError (ErrRecord validateApiKeysError)]
      else
        (let apiKey = getApiKey imp (apiKeys opt);
             baseUrl = baseUrlOf opt;
             apiUrlPath =
               (if includes_str baseUrl (js ''gateway.ai.cloudflare.com'')
                then js ''/models'' else js ''/v1/models'');
             isAzureServiceProvider = includes_str (apiUrl opt) (js ''openai.azure.com'')
         in if isAzureServiceProvider \<and> deploymentName opt = []
            then [HandleValidateError (ErrRecord deploymentNameError)]
            else if isAzureServiceProvider then
              Request \<lparr>method_r = js ''POST'',
                       url = baseUrl @ js ''/openai/deployments/'' @ deploymentName opt
                               @ js ''/chat/completions?api-version=2023-05-15'',
                       header = buildHeader isAzureServiceProvider apiKey,
                       body = Some azureTestBody\<rparr>
              # validateAnswer (azureValidateHandler eng) vt
            else
              Request \<lparr>method_r = js ''GET'',
                       url = baseUrl @ apiUrlPath,
                       header = buildHeader isAzureServiceProvider apiKey,
                       body = None\<rparr>
              # validateAnswer (openaiValidateHandler eng) vt))"

text \<open>The number of calls of the validation's completion callback in a trace: every
  call of \<^verbatim>\<open>handleValidateError\<close> is given the callback to report through.\<close>

fun isValidateCallback :: "event \<Rightarrow> bool" where
  "isValidateCallback (HandleValidateError e) = True"
| "isValidateCallback (ValidateCompletion b) = True"
| "isValidateCallback e = False"

definition validateCallbacks :: "event list \<Rightarrow> nat" where
  "validateCallbacks evs = length (filter isValidateCallback evs)"

section \<open>Chunk sequences\<close>

text \<open>The text that a sequence of chunks carries: the chunks' texts, concatenated.\<close>

definition chunkText :: "jsstring option list \<Rightarrow> jsstring" where
  "chunkText cs = concat (map (\<lambda>c. case c of None \<Rightarrow> [] | Some t \<Rightarrow> t) cs)"

text \<open>A chunk that does not trip the \<^verbatim>\<open>Invalid token\<close> test of \<^verbatim>\<open>streamHandler\<close>.\<close>

definition cleanChunk :: "jsstring option \<Rightarrow> bool" where
  "cleanChunk c = (case c of None \<Rightarrow> True | Some t \<Rightarrow> \<not> includes_str t (js ''Invalid token''))"

section \<open>The normaliser as the specification words it\<close>

text \<open>
  Section 4.4 of the specification: trim, then strip one matching pair of quotation
  characters from the very start and the very end if present, then strip a trailing
  \<^verbatim>\<open>" =>\<close>, then split on line feeds. The pairs are those of the pattern, style by
  style.
\<close>

definition matchingPair :: "jschar \<Rightarrow> jschar \<Rightarrow> bool" where
  "matchingPair a b =
     ((a = 0x300E \<and> b = 0x300F) \<or> (a = 0x300C \<and> b = 0x300D) \<or> (a = 0x22 \<and> b = 0x22)
      \<or> (a = 0x201C \<and> b = 0x201D))"

definition stripMatchingPair :: "jsstring \<Rightarrow> jsstring" where
  "stripMatchingPair s =
     (if 2 \<le> length s \<and> matchingPair (hd s) (last s) then butlast (tl s) else s)"

definition normalizeAsWorded :: "jsstring \<Rightarrow> jsstring list" where
  "normalizeAsWorded content =
     (let s = stripMatchingPair (trim content)
      in split_nl (if endsWith s (js ''\" =>'') then take (length s - 4) s else s))"

section \<open>Example inputs\<close>

text \<open>A serialiser for the example engine: the decoded document in compact form.\<close>

definition hexDigit :: "nat \<Rightarrow> jschar" where
  "hexDigit n = (if n < 10 then of_nat (0x30 + n) else of_nat (0x61 + (n - 10)))"

definition quoteChar :: "jschar \<Rightarrow> jsstring" where
  "quoteChar c =
     (if c = 0x22 then [0x5C, 0x22]
      else if c = 0x5C then [0x5C, 0x5C]
      else if c = 0x0A then [0x5C, 0x6E]
      else if c = 0x0D then [0x5C, 0x72]
      else if c = 0x09 then [0x5C, 0x74]
      else if c = 0x08 then [0x5C, 0x62]
      else if c = 0x0C then [0x5C, 0x66]
      else if c < 0x20 then
        [0x5C, 0x75, 0x30, 0x30, hexDigit (unat c div 16), hexDigit (unat c mod 16)]
      else [c])"

definition quoteString :: "jsstring \<Rightarrow> jsstring" where
  "quoteString s = [0x22] @ concat (map quoteChar s) @ [0x22]"

fun joinComma :: "jsstring list \<Rightarrow> jsstring" where
  "joinComma [] = []"
| "joinComma [x] = x"
| "joinComma (x # y # ys) = x @ [0x2C] @ joinComma (y # ys)"

fun stringifyJson :: "json \<Rightarrow> jsstring" where
  "stringifyJson JNull = js ''null''"
| "stringifyJson (JBool b) = (if b then js ''true'' else js ''false'')"
| "stringifyJson (JNum n) = n"
| "stringifyJson (JStr s) = quoteString s"
| "stringifyJson (JArr vs) = [0x5B] @ joinComma (map stringifyJson vs) @ [0x5D]"
| "stringifyJson (JObj kvs) =
     [0x7B] @ joinComma (map (\<lambda>(k, v). quoteString k @ [0x3A] @ stringifyJson v) kvs) @ [0x7D]"

text \<open>
  An engine and a query to run the examples on. The engine's answers about numbers are
  simple stand-ins (a number is zero when its digits before the exponent are all zero,
  and positive when it is not zero and has no sign); no example below holds a number.
\<close>

definition exampleEngine :: engine where
  "exampleEngine =
     \<lparr>syntaxErrorMessage = (\<lambda>t. js ''Unexpected token in JSON''),
      typeErrorMessage = js ''Cannot read properties of undefined'',
      numberIsZero =
        (\<lambda>n. filter (\<lambda>c. 0x31 \<le> c \<and> c \<le> 0x39)
                (takeWhile (\<lambda>c. c \<noteq> 0x65 \<and> c \<noteq> 0x45) n) = []),
      toStringOther =
        (\<lambda>v. case v of JBool True \<Rightarrow> js ''true'' | JNum n \<Rightarrow> n | _ \<Rightarrow> js ''[object Object]''),
      greaterThanZero =
        (\<lambda>v. case v of
               Some (JBool b) \<Rightarrow> b
             | Some (JNum n) \<Rightarrow>
                 filter (\<lambda>c. 0x31 \<le> c \<and> c \<le> 0x39)
                   (takeWhile (\<lambda>c. c \<noteq> 0x65 \<and> c \<noteq> 0x45) n) \<noteq> []
                 \<and> take 1 n \<noteq> [0x2D]
             | _ \<Rightarrow> False),
      numberIsTruthy = (\<lambda>s. s = js ''1''),
      JSON_stringify =
        (\<lambda>r. js ''{\"data\":'' @ (case data r of None \<Rightarrow> js ''null'' | Some d \<Rightarrow> stringifyJson d)
               @ js ''}'')\<rparr>"

definition exampleQuery :: TextTranslateQuery where
  "exampleQuery = \<lparr>text_q = js ''Helo wrld'', detectFrom = js ''en'', detectTo = js ''en''\<rparr>"

text \<open>The decoded form of \<^verbatim>\<open>{"choices":[{"delta":{"content":d}}]}\<close>.\<close>

definition deltaDoc :: "jsstring \<Rightarrow> json" where
  "deltaDoc d =
     JObj [(js ''choices'', JArr [JObj [(js ''delta'', JObj [(js ''content'', JStr d)])]])]"

text \<open>The three frames of the specification's streaming example.\<close>

definition payloadHi :: jsstring where
  "payloadHi = js ''{\"choices\":[{\"delta\":{\"content\":\"Hi\"}}]}''"

definition payloadThere :: jsstring where
  "payloadThere = js ''{\"choices\":[{\"delta\":{\"content\":\" there\"}}]}''"

definition frameHi :: jsstring where
  "frameHi = js ''data: '' @ payloadHi @ [0x0A]"

definition frameThere :: jsstring where
  "frameThere = js ''data: '' @ payloadThere @ [0x0A]"

definition frameDone :: jsstring where
  "frameDone = js ''data: [DONE]'' @ [0x0A]"

text \<open>A stream of one frame whose delta is the text \<^verbatim>\<open>Invalid token\<close>, and the two
  pieces of it cut between \<^verbatim>\<open>Invalid\<close> and \<^verbatim>\<open> token\<close>.\<close>

definition payloadInvalid :: jsstring where
  "payloadInvalid = js ''{\"choices\":[{\"delta\":{\"content\":\"Invalid token\"}}]}''"

definition streamInvalid :: jsstring where
  "streamInvalid = js ''data: '' @ payloadInvalid @ [0x0A] @ frameDone"

definition pieceInvalid1 :: jsstring where
  "pieceInvalid1 = js ''data: {\"choices\":[{\"delta\":{\"content\":\"Invalid''"

definition pieceInvalid2 :: jsstring where
  "pieceInvalid2 = js '' token\"}}]}'' @ [0x0A] @ frameDone"

text \<open>A frame whose first choice carries no content.\<close>

definition payloadNoContent :: jsstring where
  "payloadNoContent = js ''{\"choices\":[{\"delta\":{\"role\":\"assistant\"}}]}''"

text \<open>The specification's stream in three chunks, and the same text cut in two places
  that are not frame boundaries.\<close>

definition chunksByFrame :: "jsstring option list" where
  "chunksByFrame = [Some frameHi, Some frameThere, Some frameDone]"

definition chunksOffBoundary :: "jsstring option list" where
  "chunksOffBoundary =
     [Some (take 20 (frameHi @ frameThere @ frameDone)),
      Some (take 50 (drop 20 (frameHi @ frameThere @ frameDone))),
      Some (drop 70 (frameHi @ frameThere @ frameDone))]"

text \<open>The decoded form of \<^verbatim>\<open>{"choices":[{"message":{"content":c}}]}\<close>, and an HTTP
  result with status 200 that carries a document.\<close>

definition chatDoc :: "json \<Rightarrow> json" where
  "chatDoc c = JObj [(js ''choices'', JArr [JObj [(js ''message'', JObj [(js ''content'', c)])]])]"

definition okResponse :: "json \<Rightarrow> HttpResponse" where
  "okResponse d = \<lparr>data = Some d, statusCode = 200, hasError = False\<rparr>"

text \<open>The body of the specification's example: \<^verbatim>\<open>\u201cBonjour\u201d\<close> and a line feed.\<close>

definition bodyBonjour :: jsstring where
  "bodyBonjour = js ''{\"choices\":[{\"message\":{\"content\":\"'' @ [0x201C] @ js ''Bonjour''
                   @ [0x201D, 0x5C, 0x6E] @ js ''\"}}]}''"

text \<open>A content with a quotation mark at its start and none at its end:
  \<^verbatim>\<open>"Yes," she said.\<close>\<close>

definition contentOpenOnly :: jsstring where
  "contentOpenOnly = js ''\"Yes,\" she said.''"

text \<open>The body \<^verbatim>\<open>{"choices":[]}\<close> of the specification's example.\<close>

definition bodyNoChoices :: jsstring where
  "bodyNoChoices = js ''{\"choices\":[]}''"

text \<open>Imports for the examples: a table with English, French and simplified Chinese,
  the first key of the list, templates taken as they are, and no prompt of its own for
  any language.\<close>

definition exampleImports :: imported where
  "exampleImports =
     \<lparr>langMap = [js ''en'' \<mapsto> js ''English'', js ''fr'' \<mapsto> js ''French'',
                 js ''zh-Hans'' \<mapsto> js ''Simplified Chinese''],
      getApiKey = (\<lambda>keys. takeWhile (\<lambda>c. c \<noteq> 0x2C) keys),
      replacePromptKeywords = (\<lambda>p query. p),
      languageMapping = Map.empty,
      DEFAULT_PROMPT_simplicity =
        js ''Revise the following sentences to make them more clear, concise, and coherent.'',
      DEFAULT_PROMPT_detailed =
        js '' Please note that you need to list the changes and briefly explain why.''\<rparr>"

definition exampleOptions :: options where
  "exampleOptions =
     \<lparr>apiKeys = js ''sk-test'', apiUrl = [], apiVersion = [], customModel = [],
      deploymentName = [], model = js ''gpt-3.5-turbo'', stream = js ''0'',
      customSystemPrompt = [], customUserPrompt = [], polishingMode = js ''simplicity''\<rparr>"

text \<open>A transport that answers the request with the content \<^verbatim>\<open>Hello world\<close>.\<close>

definition exampleTransport :: transport where
  "exampleTransport =
     \<lparr>requestOutcome = Inr (okResponse (chatDoc (JStr (js ''Hello world'')))),
      streamChunks = [Some frameHi, Some frameThere, Some frameDone],
      streamResult = Some (okResponse JNull),
      streamRejects = None\<rparr>"

text \<open>A query whose target language is not in the table of the example imports.\<close>

definition queryUnsupported :: TextTranslateQuery where
  "queryUnsupported = \<lparr>text_q = js ''Helo wrld'', detectFrom = js ''en'', detectTo = js ''xx''\<rparr>"

text \<open>Options that name an Azure resource and no deployment.\<close>

definition optionsAzureNoDeployment :: options where
  "optionsAzureNoDeployment = exampleOptions\<lparr>apiUrl := js ''https://example.openai.azure.com''\<rparr>"

text \<open>The answer of the example transport with the content \<^verbatim>\<open>null\<close>.\<close>

definition transportNullContent :: transport where
  "transportNullContent = exampleTransport\<lparr>requestOutcome := Inr (okResponse (chatDoc JNull))\<rparr>"

text \<open>An answer to a validation, with an empty model list, and options for an Azure
  resource with a deployment.\<close>

definition bodyEmptyModels :: jsstring where
  "bodyEmptyModels = js ''{\"object\":\"list\",\"data\":[]}''"

definition optionsAzure :: options where
  "optionsAzure =
     exampleOptions\<lparr>apiUrl := js ''https://example.openai.azure.com'',
                     deploymentName := js ''gpt4''\<rparr>"

text \<open>
  A streamed call that the server refuses: one chunk carries the error body with the
  text \<^verbatim>\<open>Invalid token\<close>, and the final handler gets the status 401.
\<close>

definition chunkRefused :: jsstring where
  "chunkRefused = js ''{\"error\":{\"message\":\"Invalid token\"}}''"

definition responseRefused :: HttpResponse where
  "responseRefused = \<lparr>data = None, statusCode = 401, hasError = True\<rparr>"

definition transportRefused :: transport where
  "transportRefused =
     \<lparr>requestOutcome = Inr responseRefused,
      streamChunks = [Some chunkRefused],
      streamResult = Some responseRefused,
      streamRejects = None\<rparr>"

definition optionsStreaming :: options where
  "optionsStreaming = exampleOptions\<lparr>stream := js ''1''\<rparr>"

section \<open>The bound of the JSON parser\<close>

lemma consFst_Some: "consFst x r = Some (ys, t) \<longleftrightarrow> (\<exists>xs. r = Some (xs, t) \<and> ys = x # xs)"
  by (cases r) (auto simp: consFst_def)

lemma skipWs_length: "length (skipWs s) \<le> length s"
  by (simp add: skipWs_def length_dropWhile_le)

lemma skipWs_Cons_length: "skipWs s = c # r \<Longrightarrow> length r < length s"
  using skipWs_length [of s] by simp

lemma parseStringBody_shorter: "parseStringBody s = Some (x, r) \<Longrightarrow> length r < length s"
proof (induction "length s" arbitrary: s x r rule: less_induct)
  case less
  show ?case
  proof (cases s)
    case Nil
    with less.prems show ?thesis by simp
  next
    case (Cons c cs)
    have IH: "length r < length s'" if "parseStringBody s' = Some (y, r)" "length s' < length s" for s' y
      using less.hyps [OF that(2) that(1)] .
    from less.prems Cons show ?thesis
      by (auto simp: consFst_Some split: if_splits list.splits option.splits dest!: IH)
  qed
qed

lemma parseInt_shorter: "parseInt s = Some (x, r) \<Longrightarrow> length r < length s"
  by (auto simp: parseInt_def split: list.splits if_splits intro: le_imp_less_Suc length_dropWhile_le)

lemma parseFrac_shorter: "parseFrac s = Some (x, r) \<Longrightarrow> length r \<le> length s"
  by (auto simp: parseFrac_def split: list.splits if_splits intro: le_SucI length_dropWhile_le)

lemma parseExp_shorter: "parseExp s = Some (x, r) \<Longrightarrow> length r \<le> length s"
proof (cases s)
  case Nil
  moreover assume "parseExp s = Some (x, r)"
  ultimately show ?thesis by (simp add: parseExp_def)
next
  case (Cons c cs)
  assume a: "parseExp s = Some (x, r)"
  have "length (dropWhile isDigit (drop k cs)) \<le> length cs" for k
    using length_dropWhile_le [of isDigit "drop k cs"] by simp
  with a Cons show ?thesis
    by (auto simp: parseExp_def Let_def split: if_splits intro: le_SucI)
qed

lemma parseNumber_shorter: 
  assumes "parseNumber s = Some (x, r)" shows "length r < length s"
proof -
  from assms obtain k i r1 f r2 e where
    "parseInt (drop k s) = Some (i, r1)" "parseFrac r1 = Some (f, r2)" "parseExp r2 = Some (e, r)"
    by (auto simp: parseNumber_def Let_def split: option.splits)
  from parseInt_shorter [OF this(1)] parseFrac_shorter [OF this(2)] parseExp_shorter [OF this(3)]
  show ?thesis by simp
qed

lemma parseValue_shorter_step:
  assumes E: "\<And>s' x r. parseElements n s' = Some (x, r) \<Longrightarrow> length r \<le> length s'"
      and M: "\<And>s' x r. parseMembers n s' = Some (x, r) \<Longrightarrow> length r \<le> length s'"
      and p: "parseValue (Suc n) s = Some (v, r)"
  shows "length r \<le> length s"
proof -
  from p obtain c cs where sk: "skipWs s = c # cs"
    by (auto split: list.splits)
  from skipWs_Cons_length [OF sk] have l: "length cs < length s" .
  have l2: "length (skipWs cs) < length s" using skipWs_length [of cs] l by simp
  have l3: "length (tl (skipWs cs)) < length s" using l2 by (cases "skipWs cs") auto
  have l4: "length (c # cs) \<le> length s" using l by simp
  show ?thesis
  proof (cases "c = 0x7B")
    case True
    with p sk l2 l3 show ?thesis
      by (auto simp: Let_def split: if_splits dest!: M)
  next
    case nb: False
    show ?thesis
    proof (cases "c = 0x5B")
      case True
      with p sk nb l2 l3 show ?thesis
        by (auto simp: Let_def split: if_splits dest!: E)
    next
      case nk: False
      show ?thesis
      proof (cases "c = 0x22")
        case True
        with p sk nb nk l show ?thesis
          by (auto dest!: parseStringBody_shorter)
      next
        case False
        with p sk nb nk l4 show ?thesis
          by (auto split: if_splits dest!: parseNumber_shorter)
      qed
    qed
  qed
qed

lemma parseElements_shorter_step:
  assumes V: "\<And>s' x r. parseValue n s' = Some (x, r) \<Longrightarrow> length r \<le> length s'"
      and E: "\<And>s' x r. parseElements n s' = Some (x, r) \<Longrightarrow> length r \<le> length s'"
      and p: "parseElements (Suc n) s = Some (vs, r)"
  shows "length r \<le> length s"
proof -
  from p obtain v r1 c r' where v: "parseValue n s = Some (v, r1)" and sk: "skipWs r1 = c # r'"
    by (auto split: option.splits list.splits)
  from V [OF v] skipWs_Cons_length [OF sk] have l: "length r' < length s" by simp
  from p v sk l show ?thesis
    by (auto simp: consFst_Some split: if_splits dest!: E)
qed

lemma parseMembers_shorter_step:
  assumes V: "\<And>s' x r. parseValue n s' = Some (x, r) \<Longrightarrow> length r \<le> length s'"
      and M: "\<And>s' x r. parseMembers n s' = Some (x, r) \<Longrightarrow> length r \<le> length s'"
      and p: "parseMembers (Suc n) s = Some (kvs, r)"
  shows "length r \<le> length s"
proof -
  from p obtain q r0 k r1 c r2 v r3 d r4 where
    s0: "skipWs s = q # r0" and k: "parseStringBody r0 = Some (k, r1)"
    and s1: "skipWs r1 = c # r2" and v: "parseValue n r2 = Some (v, r3)"
    and s3: "skipWs r3 = d # r4"
    by (auto split: option.splits list.splits if_splits)
  from skipWs_Cons_length [OF s0] parseStringBody_shorter [OF k] skipWs_Cons_length [OF s1]
    V [OF v] skipWs_Cons_length [OF s3]
  have l: "length r4 < length s" by simp
  from p s0 k s1 v s3 l show ?thesis
    by (auto simp: consFst_Some split: if_splits dest!: M)
qed

lemma parse_shorter:
  "(\<forall>s v r. parseValue n s = Some (v, r) \<longrightarrow> length r \<le> length s)
   \<and> (\<forall>s vs r. parseElements n s = Some (vs, r) \<longrightarrow> length r \<le> length s)
   \<and> (\<forall>s kvs r. parseMembers n s = Some (kvs, r) \<longrightarrow> length r \<le> length s)"
proof (induction n)
  case 0
  then show ?case by simp
next
  case (Suc n)
  then show ?case
    using parseValue_shorter_step [of n] parseElements_shorter_step [of n]
      parseMembers_shorter_step [of n]
    by blast
qed

lemma parseValue_shorter: "parseValue n s = Some (v, r) \<Longrightarrow> length r \<le> length s"
  using parse_shorter [of n] by blast

lemma parseValue_transfer_step:
  assumes E: "\<And>s' x. length s' < length s \<Longrightarrow> parseElements m s' = Some x
                \<Longrightarrow> parseElements k s' = Some x"
      and M: "\<And>s' x. length s' < length s \<Longrightarrow> parseMembers m s' = Some x
                \<Longrightarrow> parseMembers k s' = Some x"
      and p: "parseValue (Suc m) s = Some r"
  shows "parseValue (Suc k) s = Some r"
proof -
  from p obtain c cs where sk: "skipWs s = c # cs"
    by (auto split: list.splits)
  from skipWs_Cons_length [OF sk] have l: "length cs < length s" .
  have l2: "length (skipWs cs) < length s" using skipWs_length [of cs] l by simp
  show ?thesis
  proof (cases "c = 0x7B")
    case True
    with p sk show ?thesis
      by (auto simp: Let_def split: if_splits dest!: M [OF l2])
  next
    case nb: False
    show ?thesis
    proof (cases "c = 0x5B")
      case True
      with p sk nb show ?thesis
        by (auto simp: Let_def split: if_splits dest!: E [OF l2])
    next
      case False
      with p sk nb show ?thesis by simp
    qed
  qed
qed

lemma parseElements_transfer_step:
  assumes V: "\<And>x. parseValue m s = Some x \<Longrightarrow> parseValue k s = Some x"
      and E: "\<And>s' x. length s' < length s \<Longrightarrow> parseElements m s' = Some x
                \<Longrightarrow> parseElements k s' = Some x"
      and p: "parseElements (Suc m) s = Some r"
  shows "parseElements (Suc k) s = Some r"
proof -
  from p obtain v r1 c r' where v: "parseValue m s = Some (v, r1)" and sk: "skipWs r1 = c # r'"
    by (auto split: option.splits list.splits)
  from parseValue_shorter [OF v] skipWs_Cons_length [OF sk] have l: "length r' < length s" by simp
  obtain vs t where r: "r = (vs, t)" by (cases r)
  from p v sk V [OF v] show ?thesis
    unfolding r by (auto simp: consFst_Some split: if_splits dest!: E [OF l])
qed

lemma parseMembers_transfer_step:
  assumes V: "\<And>s' x. length s' < length s \<Longrightarrow> parseValue m s' = Some x
                \<Longrightarrow> parseValue k s' = Some x"
      and M: "\<And>s' x. length s' < length s \<Longrightarrow> parseMembers m s' = Some x
                \<Longrightarrow> parseMembers k s' = Some x"
      and p: "parseMembers (Suc m) s = Some r"
  shows "parseMembers (Suc k) s = Some r"
proof -
  from p obtain q r0 key r1 c r2 v r3 d r4 where
    s0: "skipWs s = q # r0" and ky: "parseStringBody r0 = Some (key, r1)"
    and s1: "skipWs r1 = c # r2" and v: "parseValue m r2 = Some (v, r3)"
    and s3: "skipWs r3 = d # r4"
    by (auto split: option.splits list.splits if_splits)
  from skipWs_Cons_length [OF s0] parseStringBody_shorter [OF ky] skipWs_Cons_length [OF s1]
  have l2: "length r2 < length s" by simp
  with parseValue_shorter [OF v] skipWs_Cons_length [OF s3]
  have l4: "length r4 < length s" by simp
  obtain kvs t where r: "r = (kvs, t)" by (cases r)
  from p s0 ky s1 v s3 V [OF l2 v] show ?thesis
    unfolding r by (auto simp: consFst_Some split: if_splits dest!: M [OF l4])
qed

lemma parse_fuel_enough:
  "(\<forall>s r k. parseValue m s = Some r \<longrightarrow> 2 * length s + 2 \<le> k \<longrightarrow> parseValue k s = Some r)
   \<and> (\<forall>s r k. parseElements m s = Some r \<longrightarrow> 2 * length s + 3 \<le> k \<longrightarrow> parseElements k s = Some r)
   \<and> (\<forall>s r k. parseMembers m s = Some r \<longrightarrow> 2 * length s + 3 \<le> k \<longrightarrow> parseMembers k s = Some r)"
proof (induction m)
  case 0
  then show ?case by simp
next
  case (Suc m)
  from Suc have IHV: "parseValue k s = Some r"
    if "parseValue m s = Some r" "2 * length s + 2 \<le> k" for s r k
    using that by blast
  from Suc have IHE: "parseElements k s = Some r"
    if "parseElements m s = Some r" "2 * length s + 3 \<le> k" for s r k
    using that by blast
  from Suc have IHM: "parseMembers k s = Some r"
    if "parseMembers m s = Some r" "2 * length s + 3 \<le> k" for s r k
    using that by blast
  have V: "parseValue k s = Some r"
    if p: "parseValue (Suc m) s = Some r" and k: "2 * length s + 2 \<le> k" for s r k
  proof -
    from k obtain k' where k': "k = Suc k'" by (cases k) simp_all
    with k have b: "2 * length s + 1 \<le> k'" by simp
    have "parseValue (Suc k') s = Some r"
    proof (rule parseValue_transfer_step [OF _ _ p])
      fix s' x assume l: "length s' < length s" and e: "parseElements m s' = Some x"
      from l b have "2 * length s' + 3 \<le> k'" by arith
      with e show "parseElements k' s' = Some x" by (rule IHE)
    next
      fix s' x assume l: "length s' < length s" and e: "parseMembers m s' = Some x"
      from l b have "2 * length s' + 3 \<le> k'" by arith
      with e show "parseMembers k' s' = Some x" by (rule IHM)
    qed
    with k' show ?thesis by simp
  qed
  have E: "parseElements k s = Some r"
    if p: "parseElements (Suc m) s = Some r" and k: "2 * length s + 3 \<le> k" for s r k
  proof -
    from k obtain k' where k': "k = Suc k'" by (cases k) simp_all
    with k have b: "2 * length s + 2 \<le> k'" by simp
    have "parseElements (Suc k') s = Some r"
    proof (rule parseElements_transfer_step [OF _ _ p])
      fix x assume e: "parseValue m s = Some x"
      from e b show "parseValue k' s = Some x" by (rule IHV)
    next
      fix s' x assume l: "length s' < length s" and e: "parseElements m s' = Some x"
      from l b have "2 * length s' + 3 \<le> k'" by arith
      with e show "parseElements k' s' = Some x" by (rule IHE)
    qed
    with k' show ?thesis by simp
  qed
  have M: "parseMembers k s = Some r"
    if p: "parseMembers (Suc m) s = Some r" and k: "2 * length s + 3 \<le> k" for s r k
  proof -
    from k obtain k' where k': "k = Suc k'" by (cases k) simp_all
    with k have b: "2 * length s + 2 \<le> k'" by simp
    have "parseMembers (Suc k') s = Some r"
    proof (rule parseMembers_transfer_step [OF _ _ p])
      fix s' x assume l: "length s' < length s" and e: "parseValue m s' = Some x"
      from l b have "2 * length s' + 2 \<le> k'" by arith
      with e show "parseValue k' s' = Some x" by (rule IHV)
    next
      fix s' x assume l: "length s' < length s" and e: "parseMembers m s' = Some x"
      from l b have "2 * length s' + 3 \<le> k'" by arith
      with e show "parseMembers k' s' = Some x" by (rule IHM)
    qed
    with k' show ?thesis by simp
  qed
  from V E M show ?case by blast
qed

text \<open>
  The bound of \<open>JSON_parse\<close> never cuts a parse short: a document that parses with
  any bound parses with the one \<open>JSON_parse\<close> uses, to the same value.
\<close>

lemma JSON_parse_any_fuel:
  "JSON_parse s = Some v \<longleftrightarrow> (\<exists>n r. parseValue n s = Some (v, r) \<and> skipWs r = [])"
proof
  assume a: "JSON_parse s = Some v"
  define x where "x = parseValue (2 * length s + 2) s"
  from a have "case x of None \<Rightarrow> False | Some (v', r) \<Rightarrow> skipWs r = [] \<and> v' = v"
    unfolding JSON_parse_def x_def [symmetric] by (auto split: option.splits if_splits)
  then obtain r where "x = Some (v, r)" "skipWs r = []"
    by (auto split: option.splits)
  then show "\<exists>n r. parseValue n s = Some (v, r) \<and> skipWs r = []"
    unfolding x_def by blast
next
  assume "\<exists>n r. parseValue n s = Some (v, r) \<and> skipWs r = []"
  then obtain n r where p: "parseValue n s = Some (v, r)" and w: "skipWs r = []" by blast
  from parse_fuel_enough [of n] p have e: "parseValue (2 * length s + 2) s = Some (v, r)" by blast
  show "JSON_parse s = Some v" unfolding JSON_parse_def e by (simp add: w)
qed

section \<open>The frame pattern is stable under appending\<close>

lemma startsWith_length: "startsWith s t \<Longrightarrow> length t \<le> length s"
proof -
  assume "startsWith s t"
  then have "take (length t) s = t" by (simp add: startsWith_def)
  then have "length (take (length t) s) = length t" by (rule arg_cong)
  then show ?thesis by simp
qed

lemma startsWith_append: "startsWith s t \<Longrightarrow> startsWith (s @ u) t"
  using startsWith_length [of s t] by (simp add: startsWith_def)

lemma lazyTail_append: "lazyTail s = Some n \<Longrightarrow> lazyTail (s @ t) = Some n"
proof (induction s arbitrary: n)
  case Nil
  then show ?case by simp
next
  case (Cons c cs)
  have sw: "startsWith (cs @ t) [0x0A] = startsWith cs [0x0A]" if "cs \<noteq> []"
    using that by (cases cs) (auto simp: startsWith_def)
  show ?case
  proof (cases "cs = []")
    case True
    with Cons.prems show ?thesis by (auto simp: startsWith_def split: if_splits)
  next
    case False
    with Cons show ?thesis by (auto split: if_splits simp: sw)
  qed
qed

lemma matchAt_append: 
  assumes "matchAt s = Some n" shows "matchAt (s @ t) = Some n"
proof -
  from assms have sw: "startsWith s (js ''data: '')" 
    by (auto simp: matchAt_def split: if_splits)
  from assms sw obtain m where m: "lazyTail (drop 6 s) = Some m" "n = 6 + m"
    by (auto simp: matchAt_def)
  from startsWith_length [OF sw] have "6 \<le> length s" by (simp add: length_data_prefix)
  then have "drop 6 (s @ t) = drop 6 s @ t" by simp
  with lazyTail_append [OF m(1), of t] m(2) startsWith_append [OF sw, of t]
  show ?thesis by (simp add: matchAt_def)
qed

text \<open>a string on which lazyTail fails but succeeds after appending has no line terminator\<close>
lemma lazyTail_extend_no_LT:
  "lazyTail s = None \<Longrightarrow> lazyTail (s @ t) = Some m \<Longrightarrow> \<forall>c \<in> set s. \<not> isLineTerminator c"
proof (induction s arbitrary: m)
  case Nil
  then show ?case by simp
next
  case (Cons c cs)
  have sw: "startsWith (cs @ t) [0x0A] = startsWith cs [0x0A]" if "cs \<noteq> []"
    using that by (cases cs) (auto simp: startsWith_def)
  show ?case
  proof (cases "cs = []")
    case True
    with Cons.prems show ?thesis by (auto split: if_splits simp: isLineTerminator_def)
  next
    case False
    with Cons.prems sw have nb: "\<not> (c = 0x7D \<and> startsWith (cs @ t) [0x0A])" 
      by (auto split: if_splits)
    with Cons.prems have nlt: "\<not> isLineTerminator c" by (auto split: if_splits)
    from Cons.prems nb nlt sw False have "lazyTail cs = None" by (auto split: if_splits)
    moreover from Cons.prems nb nlt obtain m' where "lazyTail (cs @ t) = Some m'" by (auto split: if_splits)
    ultimately show ?thesis using Cons.IH nlt by auto
  qed
qed

lemma lazyTail_has_nl: "lazyTail s = Some n \<Longrightarrow> \<exists>c \<in> set s. isLineTerminator c"
proof (induction s arbitrary: n)
  case Nil
  then show ?case by simp
next
  case (Cons c cs)
  show ?case
  proof (cases "c = 0x7D \<and> startsWith cs [0x0A]")
    case True
    then show ?thesis by (cases cs) (auto simp: startsWith_def isLineTerminator_def)
  next
    case False
    with Cons show ?thesis by (auto split: if_splits)
  qed
qed

lemma findMatch_has_nl: "findMatch s = Some (i, n) \<Longrightarrow> \<exists>c \<in> set (drop 6 s). isLineTerminator c"
proof (induction s arbitrary: i)
  case Nil
  then show ?case by simp
next
  case (Cons c cs)
  show ?case
  proof (cases "matchAt (c # cs)")
    case (Some k)
    then show ?thesis 
      by (auto simp: matchAt_def split: if_splits dest!: lazyTail_has_nl)
  next
    case None
    with Cons.prems obtain i' where "findMatch cs = Some (i', n)" by auto
    from Cons.IH [OF this] obtain d where "d \<in> set (drop 6 cs)" "isLineTerminator d" by auto
    moreover have "set (drop 6 cs) \<subseteq> set (drop 5 cs)" 
      by (rule set_drop_subset_set_drop) simp
    ultimately show ?thesis by auto
  qed
qed

lemma findMatch_append: "findMatch s = Some (i, n) \<Longrightarrow> findMatch (s @ t) = Some (i, n)"
proof (induction s arbitrary: i)
  case Nil
  then show ?case by simp
next
  case (Cons c cs)
  show ?case
  proof (cases "matchAt (c # cs)")
    case (Some k)
    with Cons.prems matchAt_append [OF Some, of t] show ?thesis by simp
  next
    case None
    with Cons.prems obtain i' where f: "findMatch cs = Some (i', n)" and i: "i = Suc i'" by auto
    have "matchAt ((c # cs) @ t) = None"
    proof (rule ccontr)
      assume "matchAt ((c # cs) @ t) \<noteq> None"
      then obtain k where k: "matchAt ((c # cs) @ t) = Some k" by auto
      from findMatch_bounds [OF f] have len: "6 \<le> length (c # cs)" by simp
      then have d: "drop 6 ((c # cs) @ t) = drop 6 (c # cs) @ t" by simp
      from k have sw: "startsWith ((c # cs) @ t) (js ''data: '')" 
        by (auto simp: matchAt_def split: if_splits)
      with len have sw': "startsWith (c # cs) (js ''data: '')"
        by (simp add: startsWith_def length_data_prefix)
      from k sw d obtain m where m: "lazyTail (drop 6 (c # cs) @ t) = Some m"
        by (auto simp: matchAt_def)
      from None sw' have "lazyTail (drop 6 (c # cs)) = None" by (auto simp: matchAt_def)
      from lazyTail_extend_no_LT [OF this m] have "\<forall>x \<in> set (drop 5 cs). \<not> isLineTerminator x" by simp
      moreover from findMatch_has_nl [OF f] obtain x where "x \<in> set (drop 6 cs)" "isLineTerminator x" by auto
      moreover have "set (drop 6 cs) \<subseteq> set (drop 5 cs)" by (rule set_drop_subset_set_drop) simp
      ultimately show False by auto
    qed
    with Cons.IH [OF f] i show ?thesis by simp
  qed
qed

lemma bufferMatch_append: 
  assumes "bufferMatch b = Some (m0, m1)" shows "bufferMatch (b @ c) = Some (m0, m1)"
proof -
  from assms obtain i n where f: "findMatch b = Some (i, n)" 
    and m0: "m0 = take n (drop i b)" and m1: "m1 = take (n - 7) (drop (i + 6) b)"
    by (auto simp: bufferMatch_def)
  from findMatch_bounds [OF f] have "8 \<le> n" "i + n \<le> length b" by auto
  then have "take n (drop i (b @ c)) = take n (drop i b)" "take (n - 7) (drop (i + 6) (b @ c)) = take (n - 7) (drop (i + 6) b)"
    by auto
  with findMatch_append [OF f, of c] m0 m1 show ?thesis by (simp add: bufferMatch_def)
qed

lemma frameLoop_None: "bufferMatch b = None \<Longrightarrow> frameLoop eng q t b = ((t, b), [])"
  by (subst frameLoop.simps) simp

lemma frameLoop_Some:
  "bufferMatch b = Some (m0, m1) \<Longrightarrow> handleStreamResponse eng q t (trim m1) = (t', evs) \<Longrightarrow>
   frameLoop eng q t b =
     (case frameLoop eng q t' (drop (length m0) b) of (st, evs') \<Rightarrow> (st, evs @ evs'))"
  by (subst frameLoop.simps) simp

lemma frameLoop_append:
  "frameLoop eng q t (b @ c) =
     (case frameLoop eng q t b of
        ((t', b'), evs) \<Rightarrow> (case frameLoop eng q t' (b' @ c) of (st, evs') \<Rightarrow> (st, evs @ evs')))"
proof (induction eng q t b rule: frameLoop.induct)
  case (1 eng query targetText buffer)
  show ?case
  proof (cases "bufferMatch buffer")
    case None
    then show ?thesis by (simp add: frameLoop_None split: prod.splits)
  next
    case (Some m)
    obtain m0 m1 where m: "m = (m0, m1)" by (cases m)
    obtain t' evs where h: "handleStreamResponse eng query targetText (trim m1) = (t', evs)"
      by (cases "handleStreamResponse eng query targetText (trim m1)")
    from Some m have bm: "bufferMatch buffer = Some (m0, m1)" by simp
    from bufferMatch_length [OF bm] have d: "drop (length m0) (buffer @ c) = drop (length m0) buffer @ c"
      by simp
    note IH = "1.IH" [OF Some m [symmetric] h [symmetric]]
    obtain t2 b2 evs2 where f1: "frameLoop eng query t' (drop (length m0) buffer) = ((t2, b2), evs2)"
      by (cases "frameLoop eng query t' (drop (length m0) buffer)") auto
    obtain st evs3 where f2: "frameLoop eng query t2 (b2 @ c) = (st, evs3)"
      by (cases "frameLoop eng query t2 (b2 @ c)") auto
    from IH f1 f2 have f3: "frameLoop eng query t' (drop (length m0) buffer @ c) = (st, evs2 @ evs3)"
      by simp
    have "frameLoop eng query targetText (buffer @ c) = (st, evs @ evs2 @ evs3)"
      by (simp only: frameLoop_Some [OF bufferMatch_append [OF bm] h] d f3 prod.case)
    moreover have "frameLoop eng query targetText buffer = ((t2, b2), evs @ evs2)"
      by (simp only: frameLoop_Some [OF bm h] f1 prod.case)
    ultimately show ?thesis using f2 by simp
  qed
qed

lemma frameLoop_residual: "frameLoop eng q t b = ((t', b'), evs) \<Longrightarrow> bufferMatch b' = None"
proof (induction eng q t b arbitrary: evs rule: frameLoop.induct)
  case (1 eng query targetText buffer)
  show ?case
  proof (cases "bufferMatch buffer")
    case None
    with "1.prems" show ?thesis by (simp add: frameLoop_None)
  next
    case (Some m)
    obtain m0 m1 where m: "m = (m0, m1)" by (cases m)
    obtain t1 evs1 where h: "handleStreamResponse eng query targetText (trim m1) = (t1, evs1)"
      by (cases "handleStreamResponse eng query targetText (trim m1)")
    from Some m have bm: "bufferMatch buffer = Some (m0, m1)" by simp
    note IH = "1.IH" [OF Some m [symmetric] h [symmetric]]
    from "1.prems" show ?thesis
      by (auto simp: frameLoop_Some [OF bm h] split: prod.splits dest: IH)
  qed
qed

lemma feed_frameLoop:
  "bufferMatch b = None \<Longrightarrow> \<forall>c \<in> set cs. cleanChunk c \<Longrightarrow>
   feed eng q (t, b) cs = frameLoop eng q t (b @ chunkText cs)"
proof (induction cs arbitrary: t b)
  case Nil
  then show ?case by (simp add: chunkText_def frameLoop_None)
next
  case (Cons c cs)
  show ?case
  proof (cases c)
    case None
    with Cons show ?thesis by (simp add: streamHandler_def chunkText_def)
  next
    case (Some x)
    obtain t' b' evs where f: "frameLoop eng q t (b @ x) = ((t', b'), evs)"
      by (cases "frameLoop eng q t (b @ x)") auto
    from frameLoop_residual [OF f] have r: "bufferMatch b' = None" .
    from Cons.prems have cl: "\<forall>c \<in> set cs. cleanChunk c" by simp
    from Cons.prems Some have nx: "\<not> includes_str x (js ''Invalid token'')" by (simp add: cleanChunk_def)
    have ct: "b @ chunkText (c # cs) = (b @ x) @ chunkText cs"
      using Some by (simp add: chunkText_def)
    obtain st evs' where g: "frameLoop eng q t' (b' @ chunkText cs) = (st, evs')"
      by (cases "frameLoop eng q t' (b' @ chunkText cs)") auto
    have lhs: "feed eng q (t, b) (c # cs) = (st, evs @ evs')"
      using Some nx f g Cons.IH [OF r cl, of t']
      by (simp add: streamHandler_def)
    have rhs: "frameLoop eng q t ((b @ x) @ chunkText cs) = (st, evs @ evs')"
      by (simp only: frameLoop_append [of eng q t "b @ x" "chunkText cs"] f g prod.case)
    from lhs rhs ct show ?thesis by simp
  qed
qed

section \<open>Feeding chunks\<close>

text \<open>
  Claim C1, as amended. For every text and every two ways of cutting it into chunks,
  none of which contains \<^verbatim>\<open>Invalid token\<close>, the stream handler makes the same
  calls in the same order and ends with the same accumulated text and the same buffer,
  wherever the cuts fall: both runs equal one run of the frame loop over the whole text.
\<close>

theorem feed_split_invariant:
  assumes "chunkText cs1 = chunkText cs2"
    and "\<forall>c \<in> set cs1. cleanChunk c"
    and "\<forall>c \<in> set cs2. cleanChunk c"
  shows "feed eng q ([], []) cs1 = feed eng q ([], []) cs2
         \<and> feed eng q ([], []) cs1 = frameLoop eng q [] (chunkText cs1)"
proof -
  have n: "bufferMatch [] = None" by (simp add: bufferMatch_def)
  from feed_frameLoop [OF n assms(2), of eng q "[]"] feed_frameLoop [OF n assms(3), of eng q "[]"]
    assms(1)
  show ?thesis by simp
qed

theorem feed_split_invariant_witness:
  "chunkText chunksByFrame = chunkText chunksOffBoundary
   \<and> list_all cleanChunk chunksByFrame
   \<and> list_all cleanChunk chunksOffBoundary
   \<and> chunksByFrame \<noteq> chunksOffBoundary
   \<and> feed exampleEngine exampleQuery ([], []) chunksByFrame
       = feed exampleEngine exampleQuery ([], []) chunksOffBoundary"
proof -
  have h1: "chunkText chunksByFrame = chunkText chunksOffBoundary" by code_simp
  have h2: "\<forall>c \<in> set chunksByFrame. cleanChunk c" by code_simp
  have h3: "\<forall>c \<in> set chunksOffBoundary. cleanChunk c" by code_simp
  have h4: "chunksByFrame \<noteq> chunksOffBoundary" by code_simp
  from feed_split_invariant [OF h1 h2 h3, of exampleEngine exampleQuery] h1 h2 h3 h4
  show ?thesis by (simp add: list_all_iff)
qed

text \<open>
  Claim C1 as stated fails: a chunk that contains \<^verbatim>\<open>Invalid token\<close> is dropped whole
  with a \<^verbatim>\<open>secretKey\<close> error. The stream below is one well-formed frame, whose
  delta is the text \<^verbatim>\<open>Invalid token\<close>, and the sentinel. Delivered in one chunk it
  yields the error and no delta; cut between \<^verbatim>\<open>Invalid\<close> and \<^verbatim>\<open> token\<close> it yields
  the delta.
\<close>

theorem feed_split_counterexample:
  "streamInvalid = js ''data: '' @ payloadInvalid @ [0x0A] @ js ''data: [DONE]'' @ [0x0A]
   \<and> JSON_parse payloadInvalid = Some (deltaDoc (js ''Invalid token''))
   \<and> chunkText [Some streamInvalid] = streamInvalid
   \<and> chunkText [Some pieceInvalid1, Some pieceInvalid2] = streamInvalid
   \<and> feed exampleEngine exampleQuery ([], []) [Some streamInvalid]
       = (([], []), [HandleGeneralError (ErrRecord invalidTokenError)])
   \<and> feed exampleEngine exampleQuery ([], []) [Some pieceInvalid1, Some pieceInvalid2]
       = ((js ''Invalid token'', frameDone),
          [OnStream \<lparr>from_lang = js ''en'', to_lang = js ''en'',
                     toParagraphs = [js ''Invalid token'']\<rparr>])"
proof -
  have "streamInvalid = js ''data: '' @ payloadInvalid @ [0x0A] @ js ''data: [DONE]'' @ [0x0A]"
    by (simp add: streamInvalid_def frameDone_def)
  moreover have "JSON_parse payloadInvalid = Some (deltaDoc (js ''Invalid token''))"
    by code_simp
  moreover have "chunkText [Some streamInvalid] = streamInvalid"
    by (simp add: chunkText_def)
  moreover have "chunkText [Some pieceInvalid1, Some pieceInvalid2] = streamInvalid"
    by code_simp
  moreover have "feed exampleEngine exampleQuery ([], []) [Some streamInvalid]
       = (([], []), [HandleGeneralError (ErrRecord invalidTokenError)])"
    by code_simp
  moreover have "feed exampleEngine exampleQuery ([], []) [Some pieceInvalid1, Some pieceInvalid2]
       = ((js ''Invalid token'', frameDone),
          [OnStream \<lparr>from_lang = js ''en'', to_lang = js ''en'',
                     toParagraphs = [js ''Invalid token'']\<rparr>])"
    by code_simp
  ultimately show ?thesis by blast
qed

section \<open>\<^verbatim>\<open>handleStreamResponse\<close>, frame by frame\<close>

lemma bufferMatch_frameHi: "bufferMatch frameHi = Some (frameHi, payloadHi)"
  by code_simp

lemma bufferMatch_frameThere: "bufferMatch frameThere = Some (frameThere, payloadThere)"
  by code_simp

lemma bufferMatch_frameDone: "bufferMatch frameDone = None"
  by code_simp

lemma trim_payloadHi: "trim payloadHi = payloadHi"
  by code_simp

lemma trim_payloadThere: "trim payloadThere = payloadThere"
  by code_simp

lemma JSON_parse_payloadHi: "JSON_parse payloadHi = Some (deltaDoc (js ''Hi''))"
  by code_simp

lemma JSON_parse_payloadThere: "JSON_parse payloadThere = Some (deltaDoc (js '' there''))"
  by code_simp

lemma payloads_not_DONE: "payloadHi \<noteq> js ''[DONE]''" "payloadThere \<noteq> js ''[DONE]''"
  by code_simp+

lemma frames_clean:
  "\<not> includes_str frameHi (js ''Invalid token'')"
  "\<not> includes_str frameThere (js ''Invalid token'')"
  "\<not> includes_str frameDone (js ''Invalid token'')"
  by code_simp+

lemma Hi_there: "js ''Hi'' @ js '' there'' = js ''Hi there''"
  by (simp add: js_def)

lemma deltaContent_deltaDoc: "deltaContent eng (deltaDoc d) = Inr (Some (JStr d))"
  by (simp add: deltaContent_def deltaDoc_def bindT_def optMember_def js_def)

lemma handleStreamResponse_deltaDoc:
  assumes "p \<noteq> js ''[DONE]''" and "JSON_parse p = Some (deltaDoc d)" and "d \<noteq> []"
  shows "handleStreamResponse eng q t p =
           (t @ d, [OnStream \<lparr>from_lang = detectFrom q, to_lang = detectTo q,
                               toParagraphs = [t @ d]\<rparr>])"
  using assms by (simp add: handleStreamResponse_def deltaContent_deltaDoc Let_def)

lemma feed_example:
  "feed eng q ([], []) [Some frameHi, Some frameThere, Some frameDone] =
     ((js ''Hi there'', frameDone),
      [OnStream \<lparr>from_lang = detectFrom q, to_lang = detectTo q, toParagraphs = [js ''Hi'']\<rparr>,
       OnStream \<lparr>from_lang = detectFrom q, to_lang = detectTo q,
                  toParagraphs = [js ''Hi there'']\<rparr>])"
proof -
  have e: "bufferMatch [] = None" by (simp add: bufferMatch_def)
  have hi: "js ''Hi'' \<noteq> []" and th: "js '' there'' \<noteq> []" by (simp_all add: js_def)
  have h1: "handleStreamResponse eng q [] (trim payloadHi) =
              (js ''Hi'', [OnStream \<lparr>from_lang = detectFrom q, to_lang = detectTo q,
                                      toParagraphs = [js ''Hi'']\<rparr>])"
    using handleStreamResponse_deltaDoc [OF payloads_not_DONE(1) JSON_parse_payloadHi hi, of eng q "[]"]
    by (simp add: trim_payloadHi)
  have h2: "handleStreamResponse eng q (js ''Hi'') (trim payloadThere) =
              (js ''Hi there'', [OnStream \<lparr>from_lang = detectFrom q, to_lang = detectTo q,
                                            toParagraphs = [js ''Hi there'']\<rparr>])"
    using handleStreamResponse_deltaDoc [OF payloads_not_DONE(2) JSON_parse_payloadThere th,
        of eng q "js ''Hi''"]
    by (simp add: trim_payloadThere Hi_there)
  have s1: "streamHandler eng q ([], []) (Some frameHi) =
              ((js ''Hi'', []), [OnStream \<lparr>from_lang = detectFrom q, to_lang = detectTo q,
                                            toParagraphs = [js ''Hi'']\<rparr>])"
    by (simp add: streamHandler_def frames_clean frameLoop_Some [OF bufferMatch_frameHi h1]
        frameLoop_None [OF e])
  have s2: "streamHandler eng q (js ''Hi'', []) (Some frameThere) =
              ((js ''Hi there'', []), [OnStream \<lparr>from_lang = detectFrom q, to_lang = detectTo q,
                                                  toParagraphs = [js ''Hi there'']\<rparr>])"
    by (simp add: streamHandler_def frames_clean frameLoop_Some [OF bufferMatch_frameThere h2]
        frameLoop_None [OF e])
  have s3: "streamHandler eng q (js ''Hi there'', []) (Some frameDone) =
              ((js ''Hi there'', frameDone), [])"
    by (simp add: streamHandler_def frames_clean frameLoop_None [OF bufferMatch_frameDone])
  show ?thesis by (simp add: s1 s2 s3)
qed

text \<open>
  Claim C5. A payload other than \<^verbatim>\<open>[DONE]\<close> that decodes to an object whose
  \<^verbatim>\<open>choices[0].delta.content\<close> is a non-empty string \<open>d\<close> makes
  \<^verbatim>\<open>handleStreamResponse\<close> return the prior text with \<open>d\<close> appended and call the
  partial-result callback once, with the new text. The payload \<^verbatim>\<open>[DONE]\<close>, and a
  decoded frame whose \<^verbatim>\<open>choices[0]?.delta?.content\<close> is undefined, null or the
  empty string (an empty \<^verbatim>\<open>choices\<close>, a first choice with no \<^verbatim>\<open>delta\<close>, a
  \<^verbatim>\<open>delta\<close> with no \<^verbatim>\<open>content\<close>), leave the text unchanged and make no call.
  The three frames of the example yield the partial results \<^verbatim>\<open>Hi\<close> and
  \<^verbatim>\<open>Hi there\<close>, and the final result \<^verbatim>\<open>Hi there\<close>.
\<close>

theorem handleStreamResponse_delta:
  "(p \<noteq> js ''[DONE]'' \<and> JSON_parse p = Some (JObj kvs)
      \<and> map_of (rev kvs) (js ''choices'') = Some (JArr (JObj c # cs))
      \<and> map_of (rev c) (js ''delta'') = Some (JObj dl)
      \<and> map_of (rev dl) (js ''content'') = Some (JStr d) \<and> d \<noteq> []
    \<longrightarrow> handleStreamResponse eng q t p =
          (t @ d, [OnStream \<lparr>from_lang = detectFrom q, to_lang = detectTo q,
                              toParagraphs = [t @ d]\<rparr>]))
   \<and> handleStreamResponse eng q t (js ''[DONE]'') = (t, [])
   \<and> (JSON_parse p = Some doc \<and> deltaContent eng doc = Inr v
        \<and> (v = None \<or> v = Some JNull \<or> v = Some (JStr []))
      \<longrightarrow> handleStreamResponse eng q t p = (t, []))
   \<and> (JSON_parse p = Some (JObj kvs) \<and> map_of (rev kvs) (js ''choices'') = Some (JArr chs)
        \<and> (chs = []
            \<or> (chs = JObj c # cs \<and> map_of (rev c) (js ''delta'') = None)
            \<or> (chs = JObj c # cs \<and> map_of (rev c) (js ''delta'') = Some (JObj dl)
                \<and> map_of (rev dl) (js ''content'') = None))
      \<longrightarrow> handleStreamResponse eng q t p = (t, []))
   \<and> feed eng q ([], []) [Some frameHi, Some frameThere, Some frameDone] =
        ((js ''Hi there'', frameDone),
         [OnStream \<lparr>from_lang = detectFrom q, to_lang = detectTo q, toParagraphs = [js ''Hi'']\<rparr>,
          OnStream \<lparr>from_lang = detectFrom q, to_lang = detectTo q,
                     toParagraphs = [js ''Hi there'']\<rparr>])
   \<and> streamEnd q (js ''Hi there'') \<lparr>data = None, statusCode = 200, hasError = False\<rparr> =
        [OnCompletion \<lparr>from_lang = detectFrom q, to_lang = detectTo q,
                        toParagraphs = [js ''Hi there'']\<rparr>]"
proof -
  have a: "p \<noteq> js ''[DONE]'' \<and> JSON_parse p = Some (JObj kvs)
      \<and> map_of (rev kvs) (js ''choices'') = Some (JArr (JObj c # cs))
      \<and> map_of (rev c) (js ''delta'') = Some (JObj dl)
      \<and> map_of (rev dl) (js ''content'') = Some (JStr d) \<and> d \<noteq> []
    \<longrightarrow> handleStreamResponse eng q t p =
          (t @ d, [OnStream \<lparr>from_lang = detectFrom q, to_lang = detectTo q,
                              toParagraphs = [t @ d]\<rparr>])"
    by (simp add: handleStreamResponse_def deltaContent_def bindT_def optMember_def Let_def)
  have b: "handleStreamResponse eng q t (js ''[DONE]'') = (t, [])"
    by (simp add: handleStreamResponse_def)
  have c: "JSON_parse p = Some doc \<and> deltaContent eng doc = Inr v
        \<and> (v = None \<or> v = Some JNull \<or> v = Some (JStr []))
      \<longrightarrow> handleStreamResponse eng q t p = (t, [])"
    by (auto simp: handleStreamResponse_def)
  have d: "JSON_parse p = Some (JObj kvs) \<and> map_of (rev kvs) (js ''choices'') = Some (JArr chs)
        \<and> (chs = []
            \<or> (chs = JObj c # cs \<and> map_of (rev c) (js ''delta'') = None)
            \<or> (chs = JObj c # cs \<and> map_of (rev c) (js ''delta'') = Some (JObj dl)
                \<and> map_of (rev dl) (js ''content'') = None))
      \<longrightarrow> handleStreamResponse eng q t p = (t, [])"
    by (auto simp: handleStreamResponse_def deltaContent_def bindT_def optMember_def)
  have e: "streamEnd q (js ''Hi there'') \<lparr>data = None, statusCode = 200, hasError = False\<rparr> =
        [OnCompletion \<lparr>from_lang = detectFrom q, to_lang = detectTo q,
                        toParagraphs = [js ''Hi there'']\<rparr>]"
    by (simp add: streamEnd_def)
  from a b c d e feed_example [of eng q] show ?thesis by blast
qed

theorem handleStreamResponse_delta_witness:
  "payloadHi \<noteq> js ''[DONE]''
   \<and> JSON_parse payloadHi = Some (deltaDoc (js ''Hi''))
   \<and> handleStreamResponse exampleEngine exampleQuery (js ''Oh. '') payloadHi =
       (js ''Oh. Hi'',
        [OnStream \<lparr>from_lang = js ''en'', to_lang = js ''en'', toParagraphs = [js ''Oh. Hi'']\<rparr>])
   \<and> JSON_parse payloadNoContent =
       Some (JObj [(js ''choices'',
                    JArr [JObj [(js ''delta'', JObj [(js ''role'', JStr (js ''assistant''))])]])])
   \<and> handleStreamResponse exampleEngine exampleQuery (js ''Oh. '') payloadNoContent =
       (js ''Oh. '', [])"
proof -
  have p1: "payloadHi \<noteq> js ''[DONE]''"
    by code_simp
  have p2: "JSON_parse payloadHi = Some (deltaDoc (js ''Hi''))"
    by code_simp
  have p3: "JSON_parse payloadNoContent =
       Some (JObj [(js ''choices'',
                    JArr [JObj [(js ''delta'', JObj [(js ''role'', JStr (js ''assistant''))])]])])"
    by code_simp
  have r1: "handleStreamResponse exampleEngine exampleQuery (js ''Oh. '') payloadHi =
       (js ''Oh. Hi'',
        [OnStream \<lparr>from_lang = js ''en'', to_lang = js ''en'', toParagraphs = [js ''Oh. Hi'']\<rparr>])"
    using p1 p2
      handleStreamResponse_delta [where p = payloadHi and eng = exampleEngine
        and q = exampleQuery and t = "js ''Oh. ''" and d = "js ''Hi''"
        and kvs = "[(js ''choices'', JArr [JObj [(js ''delta'', JObj [(js ''content'', JStr (js ''Hi''))])]])]"
        and c = "[(js ''delta'', JObj [(js ''content'', JStr (js ''Hi''))])]" and cs = "[]"
        and dl = "[(js ''content'', JStr (js ''Hi''))]"]
    by (simp add: deltaDoc_def js_def exampleQuery_def)
  have r2: "handleStreamResponse exampleEngine exampleQuery (js ''Oh. '') payloadNoContent =
       (js ''Oh. '', [])"
    using p3
      handleStreamResponse_delta [where p = payloadNoContent and eng = exampleEngine
        and q = exampleQuery and t = "js ''Oh. ''"
        and kvs = "[(js ''choices'', JArr [JObj [(js ''delta'', JObj [(js ''role'', JStr (js ''assistant''))])]])]"
        and chs = "[JObj [(js ''delta'', JObj [(js ''role'', JStr (js ''assistant''))])]]"
        and c = "[(js ''delta'', JObj [(js ''role'', JStr (js ''assistant''))])]" and cs = "[]"
        and dl = "[(js ''role'', JStr (js ''assistant''))]"]
    by (simp add: js_def)
  from p1 p2 p3 r1 r2 show ?thesis by blast
qed

section \<open>\<^verbatim>\<open>handleGeneralResponse\<close>\<close>

lemma replaceQuotes_cases:
  "(isOpeningQuote a \<and> isClosingQuote b \<longrightarrow> replaceQuotes (a # m @ [b]) = m)
   \<and> (isOpeningQuote a \<and> (m = [] \<or> \<not> isClosingQuote (last m)) \<longrightarrow> replaceQuotes (a # m) = m)
   \<and> ((m = [] \<or> \<not> isOpeningQuote (hd m)) \<and> isClosingQuote b \<longrightarrow> replaceQuotes (m @ [b]) = m)
   \<and> (s = [] \<or> (\<not> isOpeningQuote (hd s) \<and> \<not> isClosingQuote (last s)) \<longrightarrow> replaceQuotes s = s)"
  by (cases m; cases s) (auto simp: replaceQuotes_def Let_def)

lemma handleGeneralResponse_content:
  assumes "data result = Some (JObj kvs)"
    and "map_of (rev kvs) (js ''choices'') = Some (JArr (JObj c # cs))"
    and "map_of (rev c) (js ''message'') = Some (JObj m)"
    and "map_of (rev m) (js ''content'') = Some (JStr s)"
  shows "handleGeneralResponse eng q result =
     Inr [OnCompletion \<lparr>from_lang = detectFrom q, to_lang = detectTo q,
        toParagraphs =
          (let t = replaceQuotes (trim s)
           in split_nl (if endsWith t (js ''\" =>'') then take (length t - 4) t else t))\<rparr>]"
  using assms
  by (simp add: handleGeneralResponse_def contentTrimmed_def bindT_def Let_def)

lemma handleGeneralResponse_no_content:
  assumes "data result = Some (JObj kvs)"
    and "map_of (rev kvs) (js ''choices'') = Some (JArr (JObj c # cs))"
    and "map_of (rev c) (js ''message'') = Some (JObj m)"
    and "map_of (rev m) (js ''content'') = None \<or> map_of (rev m) (js ''content'') = Some JNull"
  shows "handleGeneralResponse eng q result = Inl (TypeError eng)"
  using assms
  by (auto simp: handleGeneralResponse_def contentTrimmed_def bindT_def Let_def)

lemma JSON_parse_bodyBonjour:
  "JSON_parse bodyBonjour = Some (chatDoc (JStr ([0x201C] @ js ''Bonjour'' @ [0x201D, 0x0A])))"
  by code_simp

lemma normalize_Bonjour:
  "(let t = replaceQuotes (trim ([0x201C] @ js ''Bonjour'' @ [0x201D, 0x0A]))
    in split_nl (if endsWith t (js ''\" =>'') then take (length t - 4) t else t)) = [js ''Bonjour'']"
  by code_simp

lemma handleGeneralResponse_Bonjour:
  "handleGeneralResponse eng q
     (okResponse (chatDoc (JStr ([0x201C] @ js ''Bonjour'' @ [0x201D, 0x0A])))) =
   Inr [OnCompletion \<lparr>from_lang = detectFrom q, to_lang = detectTo q,
                       toParagraphs = [js ''Bonjour'']\<rparr>]"
  using handleGeneralResponse_content
    [of "okResponse (chatDoc (JStr ([0x201C] @ js ''Bonjour'' @ [0x201D, 0x0A])))"
      _ _ "[]" _ "[0x201C] @ js ''Bonjour'' @ [0x201D, 0x0A]" eng q]
  unfolding normalize_Bonjour
  by (simp add: okResponse_def chatDoc_def js_def)

text \<open>
  Claim C6, as amended. For a response whose \<^verbatim>\<open>choices\<close> is a non-empty array
  whose first choice has a string as message content, the normaliser trims the content,
  removes one opening quotation character at the very start if there is one and,
  independently, one closing quotation character at the very end if there is one
  (neither needs the other, and the two need not be of one style), removes a trailing
  \<^verbatim>\<open>" =>\<close>, and delivers the result split on line feeds through the completion
  callback. The body of the example normalises to the paragraphs \<^verbatim>\<open>["Bonjour"]\<close>.
\<close>

theorem handleGeneralResponse_normalizes:
  "(data result = Some (JObj kvs)
      \<and> map_of (rev kvs) (js ''choices'') = Some (JArr (JObj c # cs))
      \<and> map_of (rev c) (js ''message'') = Some (JObj msg)
      \<and> map_of (rev msg) (js ''content'') = Some (JStr s)
    \<longrightarrow> handleGeneralResponse eng q result =
          Inr [OnCompletion \<lparr>from_lang = detectFrom q, to_lang = detectTo q,
             toParagraphs =
               (let t = replaceQuotes (trim s)
                in split_nl (if endsWith t (js ''\" =>'') then take (length t - 4) t else t))\<rparr>])
   \<and> (isOpeningQuote a \<and> isClosingQuote b \<longrightarrow> replaceQuotes (a # m @ [b]) = m)
   \<and> (isOpeningQuote a \<and> (m = [] \<or> \<not> isClosingQuote (last m)) \<longrightarrow> replaceQuotes (a # m) = m)
   \<and> ((m = [] \<or> \<not> isOpeningQuote (hd m)) \<and> isClosingQuote b \<longrightarrow> replaceQuotes (m @ [b]) = m)
   \<and> (u = [] \<or> (\<not> isOpeningQuote (hd u) \<and> \<not> isClosingQuote (last u)) \<longrightarrow> replaceQuotes u = u)
   \<and> JSON_parse bodyBonjour = Some (chatDoc (JStr ([0x201C] @ js ''Bonjour'' @ [0x201D, 0x0A])))
   \<and> handleGeneralResponse eng q
        (okResponse (chatDoc (JStr ([0x201C] @ js ''Bonjour'' @ [0x201D, 0x0A])))) =
      Inr [OnCompletion \<lparr>from_lang = detectFrom q, to_lang = detectTo q,
                          toParagraphs = [js ''Bonjour'']\<rparr>]"
  using handleGeneralResponse_content [of result kvs c cs msg s eng q]
    replaceQuotes_cases [of a b m u] JSON_parse_bodyBonjour handleGeneralResponse_Bonjour [of eng q]
  by blast

theorem handleGeneralResponse_normalizes_witness:
  "handleGeneralResponse exampleEngine exampleQuery (okResponse (chatDoc (JStr contentOpenOnly))) =
     Inr [OnCompletion \<lparr>from_lang = js ''en'', to_lang = js ''en'',
                         toParagraphs = [js ''Yes,\" she said.'']\<rparr>]
   \<and> replaceQuotes ([0x300C] @ js ''Oui'' @ [0x201D]) = js ''Oui''
   \<and> replaceQuotes ([0x300C] @ js ''Oui'') = js ''Oui''
   \<and> replaceQuotes (js ''Oui'' @ [0x201D]) = js ''Oui''
   \<and> replaceQuotes (js ''Oui'') = js ''Oui''"
proof -
  let ?c = "[(js ''message'', JObj [(js ''content'', JStr contentOpenOnly)])]"
  have n: "(let t = replaceQuotes (trim contentOpenOnly)
            in split_nl (if endsWith t (js ''\" =>'') then take (length t - 4) t else t))
           = [js ''Yes,\" she said.'']"
    by code_simp
  have q: "isOpeningQuote 0x300C" "isClosingQuote 0x201D"
    "\<not> isOpeningQuote (hd (js ''Oui''))" "\<not> isClosingQuote (last (js ''Oui''))"
    by (simp_all add: isOpeningQuote_def isClosingQuote_def js_def)
  note th = handleGeneralResponse_normalizes
    [where result = "okResponse (chatDoc (JStr contentOpenOnly))"
       and kvs = "[(js ''choices'', JArr [JObj ?c])]" and c = ?c and cs = "[]"
       and msg = "[(js ''content'', JStr contentOpenOnly)]" and s = contentOpenOnly
       and eng = exampleEngine and q = exampleQuery
       and a = "0x300C" and b = "0x201D" and m = "js ''Oui''" and u = "js ''Oui''"]
  have r1: "handleGeneralResponse exampleEngine exampleQuery
              (okResponse (chatDoc (JStr contentOpenOnly))) =
            Inr [OnCompletion \<lparr>from_lang = js ''en'', to_lang = js ''en'',
                                toParagraphs = [js ''Yes,\" she said.'']\<rparr>]"
    using th unfolding n
    by (simp add: okResponse_def chatDoc_def js_def exampleQuery_def)
  from th q have "replaceQuotes (0x300C # js ''Oui'' @ [0x201D]) = js ''Oui''"
    "replaceQuotes (0x300C # js ''Oui'') = js ''Oui''"
    "replaceQuotes (js ''Oui'' @ [0x201D]) = js ''Oui''"
    "replaceQuotes (js ''Oui'') = js ''Oui''"
    by blast+
  with r1 show ?thesis by simp
qed

text \<open>
  Claim C6 as stated fails: the content \<^verbatim>\<open>"Yes," she said.\<close> starts with a
  quotation mark and does not end with one, so it holds no pair at its two ends, and
  the normaliser as worded leaves it as it is; the code removes the leading mark.
\<close>

theorem handleGeneralResponse_pair_counterexample:
  "handleGeneralResponse exampleEngine exampleQuery (okResponse (chatDoc (JStr contentOpenOnly))) =
     Inr [OnCompletion \<lparr>from_lang = js ''en'', to_lang = js ''en'',
                         toParagraphs = [js ''Yes,\" she said.'']\<rparr>]
   \<and> normalizeAsWorded contentOpenOnly = [js ''\"Yes,\" she said.'']"
proof -
  have "handleGeneralResponse exampleEngine exampleQuery
          (okResponse (chatDoc (JStr contentOpenOnly))) =
        Inr [OnCompletion \<lparr>from_lang = js ''en'', to_lang = js ''en'',
                            toParagraphs = [js ''Yes,\" she said.'']\<rparr>]"
    by code_simp
  moreover have "normalizeAsWorded contentOpenOnly = [js ''\"Yes,\" she said.'']"
    by code_simp
  ultimately show ?thesis by blast
qed

text \<open>
  Claim C7. A response whose \<^verbatim>\<open>choices\<close> is absent or an empty array makes
  \<^verbatim>\<open>handleGeneralResponse\<close> report one error of kind \<^verbatim>\<open>api\<close> whose addition is the
  serialised response, and nothing else: no result is delivered.
\<close>

theorem handleGeneralResponse_no_choices:
  "data result = Some (JObj kvs)
     \<and> (map_of (rev kvs) (js ''choices'') = None
        \<or> map_of (rev kvs) (js ''choices'') = Some (JArr []))
   \<longrightarrow> handleGeneralResponse eng q result =
         Inr [HandleGeneralError (ErrRecord
            \<lparr>type_e = Api, message = msgNoResult,
             addition = Some (JSON_stringify eng result), troubleshootingLink = None\<rparr>)]"
  by (auto simp: handleGeneralResponse_def bindT_def noResultError_def)

theorem handleGeneralResponse_no_choices_witness:
  "JSON_parse bodyNoChoices = Some (JObj [(js ''choices'', JArr [])])
   \<and> handleGeneralResponse exampleEngine exampleQuery
        (okResponse (JObj [(js ''choices'', JArr [])])) =
      Inr [HandleGeneralError (ErrRecord
         \<lparr>type_e = Api, message = msgNoResult,
          addition = Some (js ''{\"data\":{\"choices\":[]}}''), troubleshootingLink = None\<rparr>)]
   \<and> handleGeneralResponse exampleEngine exampleQuery (okResponse (JObj [])) =
      Inr [HandleGeneralError (ErrRecord
         \<lparr>type_e = Api, message = msgNoResult,
          addition = Some (js ''{\"data\":{}}''), troubleshootingLink = None\<rparr>)]"
proof -
  have p: "JSON_parse bodyNoChoices = Some (JObj [(js ''choices'', JArr [])])"
    by code_simp
  have s1: "JSON_stringify exampleEngine (okResponse (JObj [(js ''choices'', JArr [])]))
            = js ''{\"data\":{\"choices\":[]}}''"
    by code_simp
  have s2: "JSON_stringify exampleEngine (okResponse (JObj [])) = js ''{\"data\":{}}''"
    by code_simp
  have r1: "handleGeneralResponse exampleEngine exampleQuery
        (okResponse (JObj [(js ''choices'', JArr [])])) =
      Inr [HandleGeneralError (ErrRecord
         \<lparr>type_e = Api, message = msgNoResult,
          addition = Some (js ''{\"data\":{\"choices\":[]}}''), troubleshootingLink = None\<rparr>)]"
    using handleGeneralResponse_no_choices
      [of "okResponse (JObj [(js ''choices'', JArr [])])" "[(js ''choices'', JArr [])]"
        exampleEngine exampleQuery]
    unfolding s1 by (simp add: okResponse_def)
  have r2: "handleGeneralResponse exampleEngine exampleQuery (okResponse (JObj [])) =
      Inr [HandleGeneralError (ErrRecord
         \<lparr>type_e = Api, message = msgNoResult,
          addition = Some (js ''{\"data\":{}}''), troubleshootingLink = None\<rparr>)]"
    using handleGeneralResponse_no_choices [of "okResponse (JObj [])" "[]" exampleEngine exampleQuery]
    unfolding s2 by (simp add: okResponse_def)
  from p r1 r2 show ?thesis by blast
qed

section \<open>\<^verbatim>\<open>translate\<close>\<close>

lemma handleStreamResponse_no_request:
  "handleStreamResponse eng q t p = (t', evs) \<Longrightarrow> filter isRequest evs = []"
  by (auto simp: handleStreamResponse_def streamCatch_def Let_def
        split: if_splits option.splits sum.splits)

lemma frameLoop_no_request:
  "frameLoop eng q t b = (st, evs) \<Longrightarrow> filter isRequest evs = []"
proof (induction eng q t b arbitrary: st evs rule: frameLoop.induct)
  case (1 eng query targetText buffer)
  show ?case
  proof (cases "bufferMatch buffer")
    case None
    with "1.prems" show ?thesis by (simp add: frameLoop_None)
  next
    case (Some m)
    obtain m0 m1 where m: "m = (m0, m1)" by (cases m)
    obtain t1 evs1 where h: "handleStreamResponse eng query targetText (trim m1) = (t1, evs1)"
      by (cases "handleStreamResponse eng query targetText (trim m1)")
    from Some m have bm: "bufferMatch buffer = Some (m0, m1)" by simp
    obtain st2 evs2 where f: "frameLoop eng query t1 (drop (length m0) buffer) = (st2, evs2)"
      by (cases "frameLoop eng query t1 (drop (length m0) buffer)")
    from "1.IH" [OF Some m [symmetric] h [symmetric] f] have "filter isRequest evs2 = []" .
    moreover from handleStreamResponse_no_request [OF h] have "filter isRequest evs1 = []" .
    moreover from "1.prems" have "evs = evs1 @ evs2"
      by (simp add: frameLoop_Some [OF bm h] f)
    ultimately show ?thesis by simp
  qed
qed

lemma streamHandler_no_request:
  "streamHandler eng q st c = (st', evs) \<Longrightarrow> filter isRequest evs = []"
  by (cases st) (auto simp: streamHandler_def split: option.splits if_splits dest: frameLoop_no_request)

lemma feed_no_request:
  "feed eng q st cs = (st', evs) \<Longrightarrow> filter isRequest evs = []"
proof (induction cs arbitrary: st st' evs)
  case Nil
  then show ?case by simp
next
  case (Cons c cs)
  obtain st1 evs1 where s: "streamHandler eng q st c = (st1, evs1)"
    by (cases "streamHandler eng q st c")
  obtain st2 evs2 where f: "feed eng q st1 cs = (st2, evs2)"
    by (cases "feed eng q st1 cs")
  from Cons.prems s f have "evs = evs1 @ evs2" by simp
  with streamHandler_no_request [OF s] Cons.IH [OF f] show ?case by simp
qed

lemma handleGeneralResponse_no_request:
  "handleGeneralResponse eng q r = Inr evs \<Longrightarrow> filter isRequest evs = []"
  by (auto simp: handleGeneralResponse_def bindT_def Let_def
        split: sum.splits if_splits option.splits)

lemma handleGeneralResponse_one_completion:
  "handleGeneralResponse eng q r = Inr evs \<Longrightarrow> completions evs = 1"
  by (auto simp: handleGeneralResponse_def bindT_def Let_def completions_def
        split: sum.splits if_splits option.splits)

lemma entryErrors_no_request: "filter isRequest (entryErrors imp opt q) = []"
  by (simp add: entryErrors_def)

lemma streamEnd_no_request: "filter isRequest (streamEnd q t r) = []"
  by (simp add: streamEnd_def)

lemma transportCalls_translate: "transportCalls (translate imp eng opt q tr) = 1"
proof (cases "numberIsTruthy eng (stream opt)")
  case True
  obtain t b evs where f: "feed eng q ([], []) (streamChunks tr) = ((t, b), evs)"
    by (cases "feed eng q ([], []) (streamChunks tr)") auto
  from True f feed_no_request [OF f] show ?thesis
    by (simp add: translate_def transportCalls_def entryErrors_no_request streamEnd_no_request
        split: option.splits)
next
  case False
  then show ?thesis
    by (auto simp: translate_def transportCalls_def entryErrors_no_request
        split: sum.splits dest: handleGeneralResponse_no_request)
qed

text \<open>
  Claim C2: the code does the first half only. When the target language is not in the
  table, the \<^verbatim>\<open>unsupportedLanguage\<close> error is the first call that \<^verbatim>\<open>translate\<close>
  makes, yet the call goes on and invokes the transport once, where the claim has no
  request issued.
\<close>

theorem translate_unsupportedLanguage_still_requests:
  "langMap imp (detectTo q) = None \<longrightarrow>
     (\<exists>rest. translate imp eng opt q tr =
        HandleGeneralError (ErrRecord unsupportedLanguageError) # rest)
     \<and> transportCalls (translate imp eng opt q tr) = 1"
proof -
  have "langMap imp (detectTo q) = None \<longrightarrow>
     (\<exists>rest. translate imp eng opt q tr =
        HandleGeneralError (ErrRecord unsupportedLanguageError) # rest)"
    by (simp add: translate_def entryErrors_def)
  with transportCalls_translate [of imp eng opt q tr] show ?thesis by blast
qed

theorem translate_unsupportedLanguage_still_requests_witness:
  "langMap exampleImports (detectTo queryUnsupported) = None
   \<and> translate exampleImports exampleEngine exampleOptions queryUnsupported exampleTransport =
       [HandleGeneralError (ErrRecord unsupportedLanguageError),
        Request (translateRequest exampleImports exampleOptions queryUnsupported False),
        OnCompletion \<lparr>from_lang = js ''en'', to_lang = js ''xx'',
                       toParagraphs = [js ''Hello world'']\<rparr>]
   \<and> url (translateRequest exampleImports exampleOptions queryUnsupported False) =
       js ''https://api.openai.com/v1/chat/completions''
   \<and> transportCalls
        (translate exampleImports exampleEngine exampleOptions queryUnsupported exampleTransport) = 1"
proof -
  have a: "langMap exampleImports (detectTo queryUnsupported) = None"
    by code_simp
  have b: "translate exampleImports exampleEngine exampleOptions queryUnsupported exampleTransport =
       [HandleGeneralError (ErrRecord unsupportedLanguageError),
        Request (translateRequest exampleImports exampleOptions queryUnsupported False),
        OnCompletion \<lparr>from_lang = js ''en'', to_lang = js ''xx'',
                       toParagraphs = [js ''Hello world'']\<rparr>]"
    by code_simp
  have c: "url (translateRequest exampleImports exampleOptions queryUnsupported False) =
       js ''https://api.openai.com/v1/chat/completions''"
    by code_simp
  from translate_unsupportedLanguage_still_requests
    [of exampleImports queryUnsupported exampleEngine exampleOptions exampleTransport] a b c
  show ?thesis by simp
qed

text \<open>
  The same fall-through seen from the completion callback: with a target language
  outside the table and an otherwise sound configuration, the call reports the error
  and later delivers the result, two completions; with an empty key list and a missing
  custom model name as well, it makes four.
\<close>

lemma translate_entry_error_then_result:
  "translate exampleImports exampleEngine exampleOptions queryUnsupported exampleTransport =
       [HandleGeneralError (ErrRecord unsupportedLanguageError),
        Request (translateRequest exampleImports exampleOptions queryUnsupported False),
        OnCompletion \<lparr>from_lang = js ''en'', to_lang = js ''xx'',
                       toParagraphs = [js ''Hello world'']\<rparr>]
   \<and> completions
        (translate exampleImports exampleEngine exampleOptions queryUnsupported exampleTransport) = 2
   \<and> completions
        (translate exampleImports exampleEngine
           (exampleOptions\<lparr>apiKeys := [], model := js ''custom''\<rparr>) queryUnsupported
           exampleTransport) = 4"
proof -
  have b: "translate exampleImports exampleEngine exampleOptions queryUnsupported exampleTransport =
       [HandleGeneralError (ErrRecord unsupportedLanguageError),
        Request (translateRequest exampleImports exampleOptions queryUnsupported False),
        OnCompletion \<lparr>from_lang = js ''en'', to_lang = js ''xx'',
                       toParagraphs = [js ''Hello world'']\<rparr>]"
    by code_simp
  have c: "completions
        (translate exampleImports exampleEngine
           (exampleOptions\<lparr>apiKeys := [], model := js ''custom''\<rparr>) queryUnsupported
           exampleTransport) = 4"
    by code_simp
  from b c show ?thesis by (simp add: completions_def)
qed

lemma completions_append: "completions (xs @ ys) = completions xs + completions ys"
  by (simp add: completions_def)

lemma completions_streamEnd: "completions (streamEnd q t r) = 1"
  by (simp add: streamEnd_def completions_def)

text \<open>
  Claim C3, as amended. For every call of \<^verbatim>\<open>translate\<close> in which no entry check
  fails: a call that does not stream invokes the completion callback exactly once; a
  call that streams invokes it once for each error reported while the chunks are handled
  (a chunk that contains \<^verbatim>\<open>Invalid token\<close>, a frame that does not decode), once more
  if the transport calls the final handler, and once more if the request's promise
  rejects. Calls in which an entry check fails are left out.
\<close>

theorem translate_completions:
  "entryErrors imp opt q = [] \<longrightarrow>
     (\<not> numberIsTruthy eng (stream opt) \<longrightarrow> completions (translate imp eng opt q tr) = 1)
     \<and> (numberIsTruthy eng (stream opt) \<longrightarrow>
          completions (translate imp eng opt q tr) =
            completions (snd (feed eng q ([], []) (streamChunks tr)))
            + (case streamResult tr of None \<Rightarrow> 0 | Some r \<Rightarrow> 1)
            + (case streamRejects tr of None \<Rightarrow> 0 | Some e \<Rightarrow> 1))"
proof -
  have a: "completions (translate imp eng opt q tr) = 1"
    if "entryErrors imp opt q = []" "\<not> numberIsTruthy eng (stream opt)"
    using that
    by (auto simp: translate_def completions_def split: sum.splits
        dest: handleGeneralResponse_one_completion [unfolded completions_def])
  have b: "completions (translate imp eng opt q tr) =
            completions (snd (feed eng q ([], []) (streamChunks tr)))
            + (case streamResult tr of None \<Rightarrow> 0 | Some r \<Rightarrow> 1)
            + (case streamRejects tr of None \<Rightarrow> 0 | Some e \<Rightarrow> 1)"
    if "entryErrors imp opt q = []" "numberIsTruthy eng (stream opt)"
  proof -
    obtain t b evs where f: "feed eng q ([], []) (streamChunks tr) = ((t, b), evs)"
      by (cases "feed eng q ([], []) (streamChunks tr)") auto
    have "translate imp eng opt q tr =
            StreamRequest (translateRequest imp opt q True)
            # evs @ (case streamResult tr of None \<Rightarrow> [] | Some r \<Rightarrow> streamEnd q t r)
              @ (case streamRejects tr of None \<Rightarrow> [] | Some e \<Rightarrow> [HandleGeneralError (ErrThrown e)])"
      using that f by (simp add: translate_def)
    then show ?thesis
      using f completions_streamEnd [of q t]
      by (auto simp: completions_def split: option.splits)
  qed
  from a b show ?thesis by blast
qed

theorem translate_completions_witness:
  "entryErrors exampleImports exampleOptions exampleQuery = []
   \<and> completions
        (translate exampleImports exampleEngine exampleOptions exampleQuery exampleTransport) = 1
   \<and> entryErrors exampleImports optionsStreaming exampleQuery = []
   \<and> completions (snd (feed exampleEngine exampleQuery ([], []) (streamChunks exampleTransport))) = 0
   \<and> completions
        (translate exampleImports exampleEngine optionsStreaming exampleQuery exampleTransport) = 1"
proof -
  have e1: "entryErrors exampleImports exampleOptions exampleQuery = []"
    by code_simp
  have e2: "entryErrors exampleImports optionsStreaming exampleQuery = []"
    by code_simp
  have s1: "\<not> numberIsTruthy exampleEngine (stream exampleOptions)"
    by code_simp
  have s2: "numberIsTruthy exampleEngine (stream optionsStreaming)"
    by code_simp
  have f: "completions (snd (feed exampleEngine exampleQuery ([], []) (streamChunks exampleTransport))) = 0"
    by code_simp
  have r: "streamResult exampleTransport = Some (okResponse JNull)"
    "streamRejects exampleTransport = None"
    by (simp_all add: exampleTransport_def)
  from translate_completions
         [of exampleImports exampleOptions exampleQuery exampleEngine exampleTransport]
       translate_completions
         [of exampleImports optionsStreaming exampleQuery exampleEngine exampleTransport]
       e1 e2 s1 s2 f r
  show ?thesis by simp
qed

text \<open>
  Claim C3 as stated fails by design of the stream handler, which reports an error and
  lets the stream go on: a refused streamed call, whose one chunk holds
  \<^verbatim>\<open>Invalid token\<close> and whose final status is 401, reports two errors through the
  completion callback.
\<close>

theorem translate_completions_counterexample:
  "entryErrors exampleImports optionsStreaming exampleQuery = []
   \<and> translate exampleImports exampleEngine optionsStreaming exampleQuery transportRefused =
       [StreamRequest (translateRequest exampleImports optionsStreaming exampleQuery True),
        HandleGeneralError (ErrRecord invalidTokenError),
        HandleGeneralError (ErrResponse responseRefused)]
   \<and> completions
        (translate exampleImports exampleEngine optionsStreaming exampleQuery transportRefused) = 2"
proof -
  have "entryErrors exampleImports optionsStreaming exampleQuery = []"
    by code_simp
  moreover have t: "translate exampleImports exampleEngine optionsStreaming exampleQuery transportRefused =
       [StreamRequest (translateRequest exampleImports optionsStreaming exampleQuery True),
        HandleGeneralError (ErrRecord invalidTokenError),
        HandleGeneralError (ErrResponse responseRefused)]"
    by code_simp
  moreover have "completions
        (translate exampleImports exampleEngine optionsStreaming exampleQuery transportRefused) = 2"
    unfolding t by (simp add: completions_def)
  ultimately show ?thesis by blast
qed

text \<open>
  Claim C4: the code breaks its first half. For an Azure base URL and an empty
  deployment name the \<^verbatim>\<open>secretKey\<close> error is reported first, and then the request is
  sent all the same, to the path \<^verbatim>\<open>/v1/chat/completions\<close> of the Azure host, and its
  result is delivered.
\<close>

theorem translate_azure_no_deployment_still_requests:
  "includes_str (baseUrlOf optionsAzureNoDeployment) (js ''openai.azure.com'')
   \<and> deploymentName optionsAzureNoDeployment = []
   \<and> translate exampleImports exampleEngine optionsAzureNoDeployment exampleQuery exampleTransport =
       [HandleGeneralError (ErrRecord deploymentNameError),
        Request (translateRequest exampleImports optionsAzureNoDeployment exampleQuery False),
        OnCompletion \<lparr>from_lang = js ''en'', to_lang = js ''en'',
                       toParagraphs = [js ''Hello world'']\<rparr>]
   \<and> url (translateRequest exampleImports optionsAzureNoDeployment exampleQuery False) =
       js ''https://example.openai.azure.com/v1/chat/completions''"
proof -
  have "includes_str (baseUrlOf optionsAzureNoDeployment) (js ''openai.azure.com'')"
    by code_simp
  moreover have "deploymentName optionsAzureNoDeployment = []"
    by code_simp
  moreover have "translate exampleImports exampleEngine optionsAzureNoDeployment exampleQuery exampleTransport =
       [HandleGeneralError (ErrRecord deploymentNameError),
        Request (translateRequest exampleImports optionsAzureNoDeployment exampleQuery False),
        OnCompletion \<lparr>from_lang = js ''en'', to_lang = js ''en'',
                       toParagraphs = [js ''Hello world'']\<rparr>]"
    by code_simp
  moreover have "url (translateRequest exampleImports optionsAzureNoDeployment exampleQuery False) =
       js ''https://example.openai.azure.com/v1/chat/completions''"
    by code_simp
  ultimately show ?thesis by blast
qed

text \<open>The second half of claim C4: for a base URL that is not Azure's, the deployment
  name changes nothing in the request or the outcome.\<close>

lemma translate_ignores_deploymentName:
  assumes "\<not> includes_str (baseUrlOf opt) (js ''openai.azure.com'')"
  shows "translate imp eng (opt\<lparr>deploymentName := d\<rparr>) q tr = translate imp eng opt q tr"
proof -
  have b: "baseUrlOf (opt\<lparr>deploymentName := d\<rparr>) = baseUrlOf opt"
    by (simp add: baseUrlOf_def)
  have e: "entryErrors imp (opt\<lparr>deploymentName := d\<rparr>) q = entryErrors imp opt q"
    using assms by (simp add: entryErrors_def b)
  have p: "apiUrlPathOf (opt\<lparr>deploymentName := d\<rparr>) = apiUrlPathOf opt"
    using assms by (simp add: apiUrlPathOf_def b Let_def)
  have r: "buildRequestBody imp (opt\<lparr>deploymentName := d\<rparr>) m q = buildRequestBody imp opt m q" for m
    by (simp add: buildRequestBody_def)
  have t: "translateRequest imp (opt\<lparr>deploymentName := d\<rparr>) q s = translateRequest imp opt q s" for s
    by (simp add: translateRequest_def b p r)
  show ?thesis
    by (simp add: translate_def e t)
qed

text \<open>
  Claim C9. The request builder returns, for every model name and query, the members
  \<^verbatim>\<open>model\<close>, \<^verbatim>\<open>temperature\<close> 0.2, \<^verbatim>\<open>max_tokens\<close> 1000, \<^verbatim>\<open>top_p\<close> 1,
  \<^verbatim>\<open>frequency_penalty\<close> 1, \<^verbatim>\<open>presence_penalty\<close> 1 and \<^verbatim>\<open>messages\<close>, the last
  with exactly two messages, of role \<^verbatim>\<open>system\<close> then \<^verbatim>\<open>user\<close>; it has no member
  \<^verbatim>\<open>prompt\<close>. It is a function of the model name, the query, the imported tables and
  the three options it reads: two option sets that agree on those yield one payload.
\<close>

theorem buildRequestBody_shape:
  "(\<exists>systemPrompt userPrompt.
      buildRequestBody imp opt m q =
        [(js ''model'', JStr m),
         (js ''temperature'', JNum (js ''0.2'')),
         (js ''max_tokens'', JNum (js ''1000'')),
         (js ''top_p'', JNum (js ''1'')),
         (js ''frequency_penalty'', JNum (js ''1'')),
         (js ''presence_penalty'', JNum (js ''1'')),
         (js ''messages'',
          JArr [JObj [(js ''role'', JStr (js ''system'')), (js ''content'', JStr systemPrompt)],
                JObj [(js ''role'', JStr (js ''user'')), (js ''content'', JStr userPrompt)]])])
   \<and> map_of (buildRequestBody imp opt m q) (js ''prompt'') = None
   \<and> (customSystemPrompt opt' = customSystemPrompt opt
        \<and> customUserPrompt opt' = customUserPrompt opt
        \<and> polishingMode opt' = polishingMode opt
      \<longrightarrow> buildRequestBody imp opt' m q = buildRequestBody imp opt m q)"
  by (simp add: buildRequestBody_def Let_def js_def)

theorem buildRequestBody_shape_witness:
  "customSystemPrompt (exampleOptions\<lparr>apiKeys := js ''sk-other'', stream := js ''1''\<rparr>)
     = customSystemPrompt exampleOptions
   \<and> customUserPrompt (exampleOptions\<lparr>apiKeys := js ''sk-other'', stream := js ''1''\<rparr>)
     = customUserPrompt exampleOptions
   \<and> polishingMode (exampleOptions\<lparr>apiKeys := js ''sk-other'', stream := js ''1''\<rparr>)
     = polishingMode exampleOptions
   \<and> exampleOptions\<lparr>apiKeys := js ''sk-other'', stream := js ''1''\<rparr> \<noteq> exampleOptions
   \<and> buildRequestBody exampleImports
        (exampleOptions\<lparr>apiKeys := js ''sk-other'', stream := js ''1''\<rparr>)
        (js ''gpt-4'') exampleQuery
     = buildRequestBody exampleImports exampleOptions (js ''gpt-4'') exampleQuery"
proof -
  have d: "exampleOptions\<lparr>apiKeys := js ''sk-other'', stream := js ''1''\<rparr> \<noteq> exampleOptions"
    by code_simp
  from buildRequestBody_shape
    [of exampleImports exampleOptions "js ''gpt-4''" exampleQuery
      "exampleOptions\<lparr>apiKeys := js ''sk-other'', stream := js ''1''\<rparr>"] d
  show ?thesis by simp
qed

text \<open>
  Claim C10. When \<^verbatim>\<open>choices\<close> is a non-empty array and the message content of its
  first choice is absent or null, \<^verbatim>\<open>handleGeneralResponse\<close> makes no call at all and
  throws at \<^verbatim>\<open>targetText!.split\<close>; in a call of \<^verbatim>\<open>translate\<close> that does not stream
  the thrown value reaches the final \<^verbatim>\<open>catch\<close>, which hands it to
  \<^verbatim>\<open>handleGeneralError\<close>, and that is the last call of the trace.
\<close>

theorem handleGeneralResponse_null_content_throws:
  "data result = Some (JObj kvs)
     \<and> map_of (rev kvs) (js ''choices'') = Some (JArr (JObj c # cs))
     \<and> map_of (rev c) (js ''message'') = Some (JObj msg)
     \<and> (map_of (rev msg) (js ''content'') = None \<or> map_of (rev msg) (js ''content'') = Some JNull)
   \<longrightarrow> handleGeneralResponse eng q result = Inl (TypeError eng)
       \<and> (\<not> numberIsTruthy eng (stream opt) \<and> requestOutcome tr = Inr result \<and> \<not> hasError result
          \<longrightarrow> translate imp eng opt q tr =
                entryErrors imp opt q
                @ [Request (translateRequest imp opt q False),
                   HandleGeneralError (ErrThrown (TypeError eng))])"
  using handleGeneralResponse_no_content [of result kvs c cs msg eng q]
  by (auto simp: translate_def)

theorem handleGeneralResponse_null_content_throws_witness:
  "handleGeneralResponse exampleEngine exampleQuery (okResponse (chatDoc JNull)) =
     Inl (TypeError exampleEngine)
   \<and> translate exampleImports exampleEngine exampleOptions exampleQuery transportNullContent =
       [Request (translateRequest exampleImports exampleOptions exampleQuery False),
        HandleGeneralError (ErrThrown (TypeError exampleEngine))]"
proof -
  let ?c = "[(js ''message'', JObj [(js ''content'', JNull)])]"
  have e: "entryErrors exampleImports exampleOptions exampleQuery = []"
    by code_simp
  have s: "\<not> numberIsTruthy exampleEngine (stream exampleOptions)"
    by code_simp
  have o: "requestOutcome transportNullContent = Inr (okResponse (chatDoc JNull))"
    by (simp add: transportNullContent_def)
  from handleGeneralResponse_null_content_throws
    [where result = "okResponse (chatDoc JNull)" and kvs = "[(js ''choices'', JArr [JObj ?c])]"
       and c = ?c and cs = "[]" and msg = "[(js ''content'', JNull)]"
       and eng = exampleEngine and q = exampleQuery and opt = exampleOptions
       and tr = transportNullContent and imp = exampleImports] e s o
  show ?thesis
    by (simp add: okResponse_def chatDoc_def js_def)
qed

section \<open>\<^verbatim>\<open>pluginValidate\<close>\<close>

text \<open>The answers that do reach the callback: an error in the body, a non-empty model
  list, a non-empty list of choices.\<close>

lemma pluginValidate_calls_back:
  assumes "apiKeys opt \<noteq> []" and "data resp = Some (JObj kvs)"
  shows "\<not> includes_str (apiUrl opt) (js ''openai.azure.com'')
           \<and> map_of (rev kvs) (js ''error'') = None
           \<and> map_of (rev kvs) (js ''data'') = Some (JArr (x # xs))
         \<longrightarrow> (\<exists>req. pluginValidate imp eng opt (HandlerCalled resp) =
                      [Request req, ValidateCompletion True])"
    and "includes_str (apiUrl opt) (js ''openai.azure.com'') \<and> deploymentName opt \<noteq> []
           \<and> map_of (rev kvs) (js ''error'') = None
           \<and> map_of (rev kvs) (js ''choices'') = Some (JArr (x # xs))
         \<longrightarrow> (\<exists>req. pluginValidate imp eng opt (HandlerCalled resp) =
                      [Request req, ValidateCompletion True])"
    and "map_of (rev kvs) (js ''error'') = Some (JStr (e # es))
           \<and> \<not> (includes_str (apiUrl opt) (js ''openai.azure.com'') \<and> deploymentName opt = [])
         \<longrightarrow> validateCallbacks (pluginValidate imp eng opt (HandlerCalled resp)) = 1"
  using assms
  by (auto simp: pluginValidate_def validateAnswer_def openaiValidateHandler_def
      azureValidateHandler_def errorOfBody_def bindT_def validateCallbacks_def Let_def)

text \<open>
  Claim C8: the code breaks it. A response that carries no error and an empty or absent
  model list (OpenAI), or an empty list of choices (Azure), makes the handler return
  without calling anything: the trace is the request alone, and the validation callback
  is never invoked. With \<^verbatim>\<open>choices\<close> absent the Azure handler throws while reading
  \<^verbatim>\<open>choices.length\<close>, again without a callback.
\<close>

theorem pluginValidate_empty_answer_no_callback:
  "apiKeys opt \<noteq> [] \<and> data resp = Some (JObj kvs) \<and> map_of (rev kvs) (js ''error'') = None
   \<longrightarrow>
   (\<not> includes_str (apiUrl opt) (js ''openai.azure.com'')
      \<and> (map_of (rev kvs) (js ''data'') = None \<or> map_of (rev kvs) (js ''data'') = Some (JArr []))
    \<longrightarrow> (\<exists>req. pluginValidate imp eng opt (HandlerCalled resp) = [Request req])
        \<and> validateCallbacks (pluginValidate imp eng opt (HandlerCalled resp)) = 0)
   \<and> (includes_str (apiUrl opt) (js ''openai.azure.com'') \<and> deploymentName opt \<noteq> []
        \<and> map_of (rev kvs) (js ''choices'') = Some (JArr [])
      \<longrightarrow> (\<exists>req. pluginValidate imp eng opt (HandlerCalled resp) = [Request req])
          \<and> validateCallbacks (pluginValidate imp eng opt (HandlerCalled resp)) = 0)
   \<and> (includes_str (apiUrl opt) (js ''openai.azure.com'') \<and> deploymentName opt \<noteq> []
        \<and> map_of (rev kvs) (js ''choices'') = None
      \<longrightarrow> (\<exists>req. pluginValidate imp eng opt (HandlerCalled resp) =
                   [Request req, HandlerThrows (TypeError eng)])
          \<and> validateCallbacks (pluginValidate imp eng opt (HandlerCalled resp)) = 0)"
  by (auto simp: pluginValidate_def validateAnswer_def openaiValidateHandler_def
      azureValidateHandler_def errorOfBody_def bindT_def validateCallbacks_def Let_def)

theorem pluginValidate_empty_answer_no_callback_witness:
  "JSON_parse bodyEmptyModels =
     Some (JObj [(js ''object'', JStr (js ''list'')), (js ''data'', JArr [])])
   \<and> validateCallbacks
        (pluginValidate exampleImports exampleEngine exampleOptions
           (HandlerCalled (okResponse
              (JObj [(js ''object'', JStr (js ''list'')), (js ''data'', JArr [])])))) = 0
   \<and> validateCallbacks
        (pluginValidate exampleImports exampleEngine optionsAzure
           (HandlerCalled (okResponse (JObj [(js ''choices'', JArr [])])))) = 0
   \<and> validateCallbacks
        (pluginValidate exampleImports exampleEngine optionsAzure
           (HandlerCalled (okResponse (JObj [])))) = 0"
proof -
  have p: "JSON_parse bodyEmptyModels =
     Some (JObj [(js ''object'', JStr (js ''list'')), (js ''data'', JArr [])])"
    by code_simp
  have k: "apiKeys exampleOptions \<noteq> []" "apiKeys optionsAzure \<noteq> []"
    "deploymentName optionsAzure \<noteq> []"
    "\<not> includes_str (apiUrl exampleOptions) (js ''openai.azure.com'')"
    "includes_str (apiUrl optionsAzure) (js ''openai.azure.com'')"
    by code_simp+
  have r1: "validateCallbacks
        (pluginValidate exampleImports exampleEngine exampleOptions
           (HandlerCalled (okResponse
              (JObj [(js ''object'', JStr (js ''list'')), (js ''data'', JArr [])])))) = 0"
    using k pluginValidate_empty_answer_no_callback
      [where opt = exampleOptions and imp = exampleImports and eng = exampleEngine
         and resp = "okResponse (JObj [(js ''object'', JStr (js ''list'')), (js ''data'', JArr [])])"
         and kvs = "[(js ''object'', JStr (js ''list'')), (js ''data'', JArr [])]"]
    by (simp add: okResponse_def js_def)
  have r2: "validateCallbacks
        (pluginValidate exampleImports exampleEngine optionsAzure
           (HandlerCalled (okResponse (JObj [(js ''choices'', JArr [])])))) = 0"
    using k pluginValidate_empty_answer_no_callback
      [where opt = optionsAzure and imp = exampleImports and eng = exampleEngine
         and resp = "okResponse (JObj [(js ''choices'', JArr [])])"
         and kvs = "[(js ''choices'', JArr [])]"]
    by (simp add: okResponse_def js_def)
  have r3: "validateCallbacks
        (pluginValidate exampleImports exampleEngine optionsAzure
           (HandlerCalled (okResponse (JObj [])))) = 0"
    using k pluginValidate_empty_answer_no_callback
      [where opt = optionsAzure and imp = exampleImports and eng = exampleEngine
         and resp = "okResponse (JObj [])" and kvs = "[]"]
    by (simp add: okResponse_def)
  from p r1 r2 r3 show ?thesis by blast
qed

end
